theory Spec2Isabelle
  imports Complex_Main "HOL-Library.Word"
begin

section \<open>Music Lab: the note synthesis engine of music.py\<close>

text \<open>
  The development embeds the synthesis functions of \<^verbatim>\<open>music.py\<close>
  (\<^verbatim>\<open>semitone_to_freq\<close>, \<^verbatim>\<open>adsr_envelope\<close>, the four wave
  generators, \<^verbatim>\<open>synth_note\<close>) and the event handling of \<^verbatim>\<open>main\<close>
  (\<^verbatim>\<open>get_sound\<close>, the sound cache and the active channels).

  Conventions of the embedding:
  \<^item> Python and NumPy floating-point numbers (\<^verbatim>\<open>float\<close>, \<^verbatim>\<open>float32\<close>)
    are idealised as real numbers: rounding errors, infinities and NaN are not modelled.
  \<^item> A one-dimensional NumPy array is a list; the stereo array of shape \<open>(n, 2)\<close> is a
    list of pairs (left, right).
  \<^item> Python exceptions are values: a function that can raise returns \<open>error + 'a\<close>.
  \<^item> Python integers are \<^typ>\<open>int\<close>; a 16-bit sample is a \<^typ>\<open>16 word\<close>, read with
    \<^const>\<open>sint\<close>.
\<close>

subsection \<open>Settings and pitch mapping\<close>

datatype error = ValueError | IndexError

definition SAMPLE_RATE :: int where
  "SAMPLE_RATE = 44100"

definition C4_FREQ :: real where
  "C4_FREQ = 261.625565"

text \<open>Python's \<^verbatim>\<open>int(x)\<close> on a float truncates towards zero.\<close>

definition py_int :: "real \<Rightarrow> int" where
  "py_int x = (if 0 \<le> x then \<lfloor>x\<rfloor> else \<lceil>x\<rceil>)"

definition semitone_to_freq :: "int \<Rightarrow> int \<Rightarrow> real" where
  "semitone_to_freq semitone_offset octave_shift =
     (let total = semitone_offset + octave_shift * 12
      in C4_FREQ * (2 powr (real_of_int total / 12)))"

subsection \<open>Wave generators\<close>

definition wave_sine :: "real \<Rightarrow> real" where
  "wave_sine phase = sin phase"

definition wave_square :: "real \<Rightarrow> real" where
  "wave_square phase = sgn (sin phase)"

definition wave_saw :: "real \<Rightarrow> real" where
  "wave_saw phase =
     2 * (phase / (2 * pi) - real_of_int \<lfloor>0.5 + phase / (2 * pi)\<rfloor>)"

definition wave_triangle :: "real \<Rightarrow> real" where
  "wave_triangle phase = 2 * \<bar>wave_saw phase\<bar> - 1"

subsection \<open>NumPy arrays as lists\<close>

text \<open>
  \<^verbatim>\<open>np.zeros(n)\<close> raises \<^verbatim>\<open>ValueError\<close> for a negative \<open>n\<close>.
\<close>

definition np_zeros :: "int \<Rightarrow> error + real list" where
  "np_zeros n = (if n < 0 then Inl ValueError else Inr (replicate (nat n) 0))"

text \<open>
  \<^verbatim>\<open>np.linspace(start, stop, num, endpoint)\<close> for \<open>num \<ge> 0\<close>: \<open>num\<close> values
  \<open>start + i * (stop - start) / div\<close> with \<open>div = num - 1\<close> when the end point is
  included and \<open>div = num\<close> otherwise; a single value is \<open>start\<close>.
\<close>

definition linspace :: "real \<Rightarrow> real \<Rightarrow> nat \<Rightarrow> bool \<Rightarrow> real list" where
  "linspace start stop num endpoint =
     (let dv = (if endpoint then num - 1 else num)
      in map (\<lambda>i. if dv = 0 then start
                   else start + real i * ((stop - start) / real dv)) [0..<num])"

text \<open>
  The bounds of the slice \<^verbatim>\<open>[lo:hi]\<close> of an array of length \<open>n\<close>, as Python
  computes them: a negative index counts from the end, both are clamped to \<open>0..n\<close>, and
  the slice is empty when the upper bound is below the lower one.
\<close>

definition slice_index :: "nat \<Rightarrow> int \<Rightarrow> nat" where
  "slice_index n i = (if i < 0 then nat (max (i + int n) 0) else min (nat i) n)"

definition slice_bounds :: "nat \<Rightarrow> int \<Rightarrow> int \<Rightarrow> nat \<times> nat" where
  "slice_bounds n lo hi =
     (let l = slice_index n lo; h = slice_index n hi in (l, max l h))"

text \<open>
  \<^verbatim>\<open>env[lo:hi] = vals\<close> for an array \<open>vals\<close>: NumPy copies when the lengths agree,
  repeats the value when \<open>vals\<close> has exactly one element, and raises
  \<^verbatim>\<open>ValueError\<close> (could not broadcast) otherwise.
\<close>

definition set_slice :: "real list \<Rightarrow> int \<Rightarrow> int \<Rightarrow> real list \<Rightarrow> error + real list" where
  "set_slice env lo hi vals =
     (case slice_bounds (length env) lo hi of (l, h) \<Rightarrow>
        if length vals = h - l then Inr (take l env @ vals @ drop h env)
        else if length vals = 1 then Inr (take l env @ replicate (h - l) (hd vals) @ drop h env)
        else Inl ValueError)"

text \<open>\<^verbatim>\<open>env[lo:hi] = v\<close> for a scalar \<open>v\<close> never fails.\<close>

definition fill_slice :: "real list \<Rightarrow> int \<Rightarrow> int \<Rightarrow> real \<Rightarrow> real list" where
  "fill_slice env lo hi v =
     (case slice_bounds (length env) lo hi of (l, h) \<Rightarrow>
        take l env @ replicate (h - l) v @ drop h env)"

text \<open>\<^verbatim>\<open>env[i]\<close> raises \<^verbatim>\<open>IndexError\<close> out of range.\<close>

definition get_item :: "real list \<Rightarrow> int \<Rightarrow> error + real" where
  "get_item env i =
     (if 0 \<le> i \<and> i < int (length env) then Inr (env ! nat i)
      else if i < 0 \<and> - int (length env) \<le> i then Inr (env ! nat (int (length env) + i))
      else Inl IndexError)"

subsection \<open>The envelope\<close>

text \<open>
  The four guarded blocks of \<^verbatim>\<open>adsr_envelope\<close> each take the array and the
  running index \<open>idx\<close> and return both, or the exception of the slice assignment.

  The sample counts are truncated real products. In binary floating point one product of
  the source differs: \<open>0.35 * 44100\<close> is \<open>15434.999999999998\<close>, so the release of
  \<^verbatim>\<open>Bell\<close> and \<^verbatim>\<open>Piano-ish\<close> has 15434 samples in the program and 15435
  here. All other attack, decay and release products of the source are the same in both.
  A note that is long enough for the model's envelope is long enough for the program's.
\<close>

definition attack_segment :: "int \<Rightarrow> real list \<times> int \<Rightarrow> error + real list \<times> int" where
  "attack_segment a st =
     (case st of (env, idx) \<Rightarrow>
        if a > 0 then
          (case set_slice env idx (idx + a) (linspace 0 1 (nat a) False) of
             Inl e \<Rightarrow> Inl e
           | Inr env' \<Rightarrow> Inr (env', idx + a))
        else Inr (env, idx))"

definition decay_segment :: "int \<Rightarrow> real \<Rightarrow> real list \<times> int \<Rightarrow> error + real list \<times> int" where
  "decay_segment d sustain st =
     (case st of (env, idx) \<Rightarrow>
        if d > 0 then
          (case set_slice env idx (idx + d) (linspace 1 sustain (nat d) False) of
             Inl e \<Rightarrow> Inl e
           | Inr env' \<Rightarrow> Inr (env', idx + d))
        else Inr (env, idx))"

definition sustain_segment :: "int \<Rightarrow> real \<Rightarrow> real list \<times> int \<Rightarrow> real list \<times> int" where
  "sustain_segment s sustain st =
     (case st of (env, idx) \<Rightarrow>
        if s > 0 then (fill_slice env idx (idx + s) sustain, idx + s)
        else (env, idx))"

definition release_segment :: "int \<Rightarrow> real \<Rightarrow> real list \<times> int \<Rightarrow> error + real list \<times> int" where
  "release_segment r sustain st =
     (case st of (env, idx) \<Rightarrow>
        if r > 0 then
          (case (if idx > 0 then get_item env (idx - 1) else Inr sustain) of
             Inl e \<Rightarrow> Inl e
           | Inr start \<Rightarrow>
               (case set_slice env idx (idx + r) (linspace start 0 (nat r) True) of
                  Inl e \<Rightarrow> Inl e
                | Inr env' \<Rightarrow> Inr (env', idx + r)))
        else Inr (env, idx))"

definition zero_tail :: "int \<Rightarrow> real list \<times> int \<Rightarrow> real list" where
  "zero_tail n st =
     (case st of (env, idx) \<Rightarrow>
        if idx < n then fill_slice env idx (int (length env)) 0 else env)"

definition adsr_envelope :: "int \<Rightarrow> real \<Rightarrow> real \<Rightarrow> real \<Rightarrow> real \<Rightarrow> error + real list" where
  "adsr_envelope n attack decay sustain release =
     (let a = py_int (attack * real_of_int SAMPLE_RATE);
          d = py_int (decay * real_of_int SAMPLE_RATE);
          r = py_int (release * real_of_int SAMPLE_RATE);
          s = max 0 (n - (a + d + r))
      in case np_zeros n of
           Inl e \<Rightarrow> Inl e
         | Inr env \<Rightarrow>
             (case attack_segment a (env, 0) of
                Inl e \<Rightarrow> Inl e
              | Inr st1 \<Rightarrow>
                  (case decay_segment d sustain st1 of
                     Inl e \<Rightarrow> Inl e
                   | Inr st2 \<Rightarrow>
                       (case release_segment r sustain (sustain_segment s sustain st2) of
                          Inl e \<Rightarrow> Inl e
                        | Inr st4 \<Rightarrow> Inr (zero_tail n st4)))))"

subsection \<open>The instrument synthesizer\<close>

text \<open>\<^verbatim>\<open>np.clip(x, lo, hi)\<close> is \<open>minimum(hi, maximum(x, lo))\<close>.\<close>

definition np_clip :: "real \<Rightarrow> real \<Rightarrow> real \<Rightarrow> real" where
  "np_clip x lo hi = min hi (max x lo)"

text \<open>
  \<^verbatim>\<open>astype(np.int16)\<close> truncates towards zero. For a value outside the 16-bit
  range the result depends on the platform; the model wraps around there, and no
  statement below relies on it.
\<close>

definition astype_int16 :: "real \<Rightarrow> 16 word" where
  "astype_int16 x = word_of_int (py_int x)"

text \<open>
  \<^verbatim>\<open>sig *= adsr_envelope(...)\<close>: the exception of the envelope propagates;
  otherwise both arrays have \<open>n\<close> elements and the product is taken elementwise.
\<close>

definition apply_envelope :: "real list \<Rightarrow> error + real list \<Rightarrow> error + real list" where
  "apply_envelope sig envelope =
     (case envelope of Inl e \<Rightarrow> Inl e | Inr env \<Rightarrow> Inr (map2 (*) sig env))"

text \<open>
  The click of the \<^verbatim>\<open>Piano-ish\<close> instrument. The values drawn by
  \<^verbatim>\<open>np.random.uniform(-0.15, 0.15, click_len)\<close> are an input of the model:
  \<open>rnd i\<close> is the \<open>i\<close>-th value drawn in this call.
\<close>

definition add_click :: "(nat \<Rightarrow> real) \<Rightarrow> int \<Rightarrow> real list \<Rightarrow> real list" where
  "add_click rnd n sig =
     (let click_len = min (py_int (0.008 * real_of_int SAMPLE_RATE)) n;
          noise = map rnd [0..<nat click_len];
          burst = map2 (*) noise (linspace 1 0 (nat click_len) True)
      in map2 (+) (take (nat click_len) sig) burst @ drop (nat click_len) sig)"

text \<open>
  The last steps of \<^verbatim>\<open>synth_note\<close>: clip to \<open>[-1, 1]\<close>, scale by the
  volume, multiply by 32767 and convert to 16-bit integers, and put the mono channel into
  both columns of the stereo array.
\<close>

definition to_stereo :: "real \<Rightarrow> real list \<Rightarrow> (16 word \<times> 16 word) list" where
  "to_stereo volume sig =
     (let clipped = map (\<lambda>x. np_clip x (- 1) 1) sig;
          scaled = map (\<lambda>x. x * volume) clipped;
          mono = map (\<lambda>x. astype_int16 (x * 32767)) scaled
      in zip mono mono)"

text \<open>
  The branch of \<^verbatim>\<open>synth_note\<close> on the instrument name: the signal \<open>sig\<close> as it
  is before clipping (the weighted sum of the generators times the envelope, with the
  click added for \<^verbatim>\<open>Piano-ish\<close>), or the exception of the envelope.
\<close>

definition instrument_signal ::
  "(nat \<Rightarrow> real) \<Rightarrow> real \<Rightarrow> int \<Rightarrow> real list \<Rightarrow> real list \<Rightarrow> string \<Rightarrow> error + real list" where
  "instrument_signal rnd freq n t phase instrument =
     (if instrument = ''Sine'' then
        apply_envelope (map wave_sine phase) (adsr_envelope n 0.01 0.06 0.75 0.18)
      else if instrument = ''Square'' then
        apply_envelope (map wave_square phase) (adsr_envelope n 0.005 0.05 0.55 0.12)
      else if instrument = ''Triangle'' then
        apply_envelope (map wave_triangle phase) (adsr_envelope n 0.01 0.08 0.65 0.15)
      else if instrument = ''Saw'' then
        apply_envelope (map wave_saw phase) (adsr_envelope n 0.01 0.10 0.5 0.18)
      else if instrument = ''Organ'' then
        apply_envelope
          (map (\<lambda>p. 0.70 * wave_sine p + 0.20 * wave_sine (2 * p)
                  + 0.10 * wave_sine (3 * p)) phase)
          (adsr_envelope n 0.02 0.06 0.95 0.22)
      else if instrument = ''Bell'' then
        apply_envelope
          (map (\<lambda>p. 0.70 * wave_sine p + 0.35 * wave_sine (2.71 * p)
                  + 0.20 * wave_sine (5.18 * p)) phase)
          (adsr_envelope n 0.002 0.20 0.12 0.35)
      else if instrument = ''Piano-ish'' then
        (case apply_envelope
                (map (\<lambda>p. 0.55 * wave_sine p + 0.28 * wave_sine (2 * p)
                        + 0.12 * wave_sine (3 * p) + 0.05 * wave_sine (4 * p)) phase)
                (adsr_envelope n 0.003 0.22 0.15 0.35) of
           Inl e \<Rightarrow> Inl e
         | Inr sig \<Rightarrow> Inr (add_click rnd n sig))
      else if instrument = ''Chiptune'' then
        apply_envelope
          (map (\<lambda>x. sgn (sin (2 * pi * freq * (1.0 + 0.003 * sin (2 * pi * 6.0 * x)) * x))) t)
          (adsr_envelope n 0.002 0.04 0.6 0.08)
      else
        apply_envelope (map wave_sine phase) (adsr_envelope n 0.01 0.08 0.6 0.15))"

definition synth_note ::
  "(nat \<Rightarrow> real) \<Rightarrow> real \<Rightarrow> real \<Rightarrow> string \<Rightarrow> real \<Rightarrow> error + (16 word \<times> 16 word) list" where
  "synth_note rnd freq duration instrument volume =
     (let n = py_int (duration * real_of_int SAMPLE_RATE);
          t = map (\<lambda>i. real i / real_of_int SAMPLE_RATE) [0..<nat n];
          phase = map (\<lambda>x. 2 * pi * freq * x) t
      in case instrument_signal rnd freq n t phase instrument of
           Inl e \<Rightarrow> Inl e
         | Inr sig \<Rightarrow> Inr (to_stereo volume sig))"

text \<open>Two noise sources for concrete runs: silence, and a constant draw of 0.1.\<close>

definition no_noise :: "nat \<Rightarrow> real" where
  "no_noise i = 0"

definition loud_noise :: "nat \<Rightarrow> real" where
  "loud_noise i = 0.1"

subsection \<open>The application: sound cache and active channels\<close>

text \<open>
  The state of \<^verbatim>\<open>main\<close>: its local variables that the event loop reads and
  writes. \<^verbatim>\<open>pygame.sndarray.make_sound(audio)\<close> wraps the sample array, so a sound
  is identified with its samples; a channel of the mixer is a number. The field \<open>calls\<close>
  is not a variable of the source: it records, in order, the calls made to
  \<^verbatim>\<open>synth_note\<close>, \<^verbatim>\<open>Sound.play\<close> and \<^verbatim>\<open>Channel.fadeout\<close>.
\<close>

type_synonym sound = "(16 word \<times> 16 word) list"

type_synonym channel = nat

type_synonym cache_key = "string \<times> int \<times> int \<times> real"

datatype call =
    Synth real real string real
  | Play int "channel option"
  | Fadeout int channel int

record app_state =
  running :: bool
  instrument :: string
  octave_shift :: int
  volume :: real
  sound_cache :: "cache_key \<rightharpoonup> sound"
  active_channels :: "int \<rightharpoonup> channel"
  calls :: "call list"

definition note_duration :: real where
  "note_duration = 6.0"

definition init_state :: app_state where
  "init_state =
     \<lparr>running = True, instrument = ''Piano-ish'', octave_shift = 0, volume = 0.45,
      sound_cache = Map.empty, active_channels = Map.empty, calls = []\<rparr>"

text \<open>
  Python's \<^verbatim>\<open>round(x, ndigits)\<close>: the nearest multiple of \<open>10^(-ndigits)\<close>, a tie
  going to the even one.
\<close>

definition py_round :: "real \<Rightarrow> nat \<Rightarrow> real" where
  "py_round x ndigits =
     (let y = x * 10 ^ ndigits;
          f = \<lfloor>y\<rfloor>;
          frac = y - real_of_int f
      in real_of_int (if frac < 1 / 2 then f
                      else if 1 / 2 < frac then f + 1
                      else if even f then f else f + 1) / 10 ^ ndigits)"

definition get_sound ::
  "(nat \<Rightarrow> real) \<Rightarrow> app_state \<Rightarrow> string \<Rightarrow> int \<Rightarrow> int \<Rightarrow> error + sound \<times> app_state" where
  "get_sound rnd st inst octv semitone =
     (let key = (inst, octv, semitone, py_round (volume st) 3)
      in case sound_cache st key of
           Some sd \<Rightarrow> Inr (sd, st)
         | None \<Rightarrow>
             (let freq = semitone_to_freq semitone octv
              in case synth_note rnd freq note_duration inst (volume st) of
                   Inl e \<Rightarrow> Inl e
                 | Inr audio \<Rightarrow>
                     Inr (audio,
                          st\<lparr>sound_cache := (sound_cache st)(key \<mapsto> audio),
                             calls := calls st @ [Synth freq note_duration inst (volume st)]\<rparr>)))"

subsection \<open>Keys and events\<close>

text \<open>The key codes of pygame used by the source (they are the ASCII codes).\<close>

definition K_ESCAPE :: int where "K_ESCAPE = 27"
definition K_MINUS :: int where "K_MINUS = 45"
definition K_EQUALS :: int where "K_EQUALS = 61"
definition K_LEFTBRACKET :: int where "K_LEFTBRACKET = 91"
definition K_RIGHTBRACKET :: int where "K_RIGHTBRACKET = 93"
definition K_a :: int where "K_a = 97"
definition K_d :: int where "K_d = 100"
definition K_e :: int where "K_e = 101"
definition K_f :: int where "K_f = 102"
definition K_g :: int where "K_g = 103"
definition K_h :: int where "K_h = 104"
definition K_j :: int where "K_j = 106"
definition K_k :: int where "K_k = 107"
definition K_s :: int where "K_s = 115"
definition K_t :: int where "K_t = 116"
definition K_u :: int where "K_u = 117"
definition K_w :: int where "K_w = 119"
definition K_y :: int where "K_y = 121"

definition KEYBOARD_MAP :: "(int \<times> int \<times> bool \<times> string) list" where
  "KEYBOARD_MAP =
     [(K_a, 0, False, ''A''),
      (K_w, 1, True, ''W''),
      (K_s, 2, False, ''S''),
      (K_e, 3, True, ''E''),
      (K_d, 4, False, ''D''),
      (K_f, 5, False, ''F''),
      (K_t, 6, True, ''T''),
      (K_g, 7, False, ''G''),
      (K_y, 8, True, ''Y''),
      (K_h, 9, False, ''H''),
      (K_u, 10, True, ''U''),
      (K_j, 11, False, ''J''),
      (K_k, 12, False, ''K'')]"

text \<open>
  What the outside world contributes while one event is handled: the values drawn by the
  random number generator if a note is synthesised, and what \<^verbatim>\<open>snd.play()\<close>
  returns (a channel, or \<^verbatim>\<open>None\<close> when the mixer has none free).
\<close>

type_synonym world = "(nat \<Rightarrow> real) \<times> channel option"

datatype event =
    QUIT
  | KEYDOWN int
  | KEYUP int
  | MOUSEBUTTONDOWN int int int
  | OTHER

text \<open>The loop over \<^verbatim>\<open>KEYBOARD_MAP\<close> in the key-down branch.\<close>

fun press_keys ::
  "world \<Rightarrow> int \<Rightarrow> (int \<times> int \<times> bool \<times> string) list \<Rightarrow> app_state \<Rightarrow> error + app_state" where
  "press_keys w key [] st = Inr st"
| "press_keys w key ((pk, semi, is_black, label) # rest) st =
     (if key = pk \<and> active_channels st pk = None then
        (case get_sound (fst w) st (instrument st) (octave_shift st) semi of
           Inl e \<Rightarrow> Inl e
         | Inr (sd, st') \<Rightarrow>
             (let ch = snd w;
                  st'' = st'\<lparr>calls := calls st' @ [Play pk ch]\<rparr>
              in press_keys w key rest
                   (case ch of
                      None \<Rightarrow> st''
                    | Some c \<Rightarrow> st''\<lparr>active_channels := (active_channels st'')(pk \<mapsto> c)\<rparr>)))
      else press_keys w key rest st)"

definition octave_down :: "app_state \<Rightarrow> app_state" where
  "octave_down st =
     st\<lparr>octave_shift := max (- 2) (octave_shift st - 1), sound_cache := Map.empty\<rparr>"

definition octave_up :: "app_state \<Rightarrow> app_state" where
  "octave_up st =
     st\<lparr>octave_shift := min 2 (octave_shift st + 1), sound_cache := Map.empty\<rparr>"

definition volume_down :: "app_state \<Rightarrow> app_state" where
  "volume_down st =
     st\<lparr>volume := max 0.05 (volume st - 0.05), sound_cache := Map.empty\<rparr>"

definition volume_up :: "app_state \<Rightarrow> app_state" where
  "volume_up st =
     st\<lparr>volume := min 1.0 (volume st + 0.05), sound_cache := Map.empty\<rparr>"

definition on_keydown :: "world \<Rightarrow> app_state \<Rightarrow> int \<Rightarrow> error + app_state" where
  "on_keydown w st key =
     (let st1 = (if key = K_ESCAPE then st\<lparr>running := False\<rparr> else st);
          st2 = (if key = K_LEFTBRACKET then octave_down st1 else st1);
          st3 = (if key = K_RIGHTBRACKET then octave_up st2 else st2);
          st4 = (if key = K_MINUS then volume_down st3 else st3);
          st5 = (if key = K_EQUALS then volume_up st4 else st4)
      in press_keys w key KEYBOARD_MAP st5)"

definition on_keyup :: "app_state \<Rightarrow> int \<Rightarrow> app_state" where
  "on_keyup st key =
     (case active_channels st key of
        None \<Rightarrow> st
      | Some ch \<Rightarrow>
          st\<lparr>calls := calls st @ [Fadeout key ch 80],
             active_channels := (active_channels st)(key := None)\<rparr>)"

subsection \<open>Buttons\<close>

text \<open>
  A \<^verbatim>\<open>pygame.Rect\<close> is (x, y, width, height); \<^verbatim>\<open>collidepoint\<close> includes the
  left and top edges and excludes the right and bottom ones.
\<close>

type_synonym rect = "int \<times> int \<times> int \<times> int"

definition rect_x :: "rect \<Rightarrow> int" where
  "rect_x r = (case r of (x, y, w, h) \<Rightarrow> x)"

definition rect_y :: "rect \<Rightarrow> int" where
  "rect_y r = (case r of (x, y, w, h) \<Rightarrow> y)"

definition rect_right :: "rect \<Rightarrow> int" where
  "rect_right r = (case r of (x, y, w, h) \<Rightarrow> x + w)"

definition collidepoint :: "rect \<Rightarrow> int \<times> int \<Rightarrow> bool" where
  "collidepoint r p =
     (case r of (x, y, w, h) \<Rightarrow>
        case p of (px, py) \<Rightarrow> x \<le> px \<and> px < x + w \<and> y \<le> py \<and> py < y + h)"

definition WINDOW_W :: int where "WINDOW_W = 980"

definition panel_area :: rect where
  "panel_area = (40, 95, WINDOW_W - 80, 110)"

definition CTRL_COL_W :: int where "CTRL_COL_W = 300"

definition CTRL_PAD :: int where "CTRL_PAD = 14"

definition controls_area :: rect where
  "controls_area =
     (rect_right panel_area - CTRL_COL_W, rect_y panel_area, CTRL_COL_W, 110)"

definition instruments_area :: rect where
  "instruments_area =
     (rect_x panel_area, rect_y panel_area, (WINDOW_W - 80) - CTRL_COL_W - 10, 110)"

definition instruments :: "string list" where
  "instruments =
     [''Piano-ish'', ''Organ'', ''Bell'', ''Sine'', ''Triangle'', ''Saw'', ''Square'',
      ''Chiptune'']"

text \<open>The loop that lays out the instrument buttons (\<open>row_h = 42\<close>, \<open>gap = 10\<close>).\<close>

fun layout_buttons :: "int \<Rightarrow> int \<Rightarrow> string list \<Rightarrow> (string \<times> rect) list" where
  "layout_buttons x y [] = []"
| "layout_buttons x y (name # names) =
     (let w = (if length name \<le> 6 then 110 else 140)
      in if x + w > rect_right instruments_area - 10 then
           (let x' = rect_x instruments_area + 10;
                y' = y + 42
            in (name, (x', y', w, 34)) # layout_buttons (x' + w + 10) y' names)
         else (name, (x, y, w, 34)) # layout_buttons (x + w + 10) y names)"

definition btns :: "(string \<times> rect) list" where
  "btns =
     layout_buttons (rect_x instruments_area + 10) (rect_y instruments_area + 14) instruments"

definition oct_down :: rect where
  "oct_down = (rect_x controls_area + CTRL_PAD + 170, rect_y controls_area + 16, 50, 34)"

definition oct_up :: rect where
  "oct_up = (rect_x controls_area + CTRL_PAD + 230, rect_y controls_area + 16, 50, 34)"

definition vol_down :: rect where
  "vol_down = (rect_x controls_area + CTRL_PAD + 170, rect_y controls_area + 62, 50, 34)"

definition vol_up :: rect where
  "vol_up = (rect_x controls_area + CTRL_PAD + 230, rect_y controls_area + 62, 50, 34)"

fun click_buttons :: "int \<times> int \<Rightarrow> (string \<times> rect) list \<Rightarrow> app_state \<Rightarrow> app_state" where
  "click_buttons p [] st = st"
| "click_buttons p ((name, rect) # rest) st =
     click_buttons p rest
       (if collidepoint rect p
        then st\<lparr>instrument := name, sound_cache := Map.empty\<rparr> else st)"

definition on_mouse :: "app_state \<Rightarrow> int \<times> int \<Rightarrow> app_state" where
  "on_mouse st p =
     (let st1 = click_buttons p btns st;
          st2 = (if collidepoint oct_down p then octave_down st1 else st1);
          st3 = (if collidepoint oct_up p then octave_up st2 else st2);
          st4 = (if collidepoint vol_down p then volume_down st3 else st3);
          st5 = (if collidepoint vol_up p then volume_up st4 else st4)
      in st5)"

subsection \<open>The event loop\<close>

definition handle_event :: "world \<Rightarrow> app_state \<Rightarrow> event \<Rightarrow> error + app_state" where
  "handle_event w st ev =
     (case ev of
        QUIT \<Rightarrow> Inr (st\<lparr>running := False\<rparr>)
      | KEYDOWN key \<Rightarrow> on_keydown w st key
      | KEYUP key \<Rightarrow> Inr (on_keyup st key)
      | MOUSEBUTTONDOWN button mx my \<Rightarrow>
          (if button = 1 then Inr (on_mouse st (mx, my)) else Inr st)
      | OTHER \<Rightarrow> Inr st)"

text \<open>
  \<^verbatim>\<open>for event in pygame.event.get()\<close>: all events of one frame are handled, also
  after one of them has cleared \<open>running\<close>.
\<close>

fun handle_events :: "app_state \<Rightarrow> (world \<times> event) list \<Rightarrow> error + app_state" where
  "handle_events st [] = Inr st"
| "handle_events st ((w, ev) # rest) =
     (case handle_event w st ev of
        Inl e \<Rightarrow> Inl e
      | Inr st' \<Rightarrow> handle_events st' rest)"

text \<open>
  \<^verbatim>\<open>while running\<close>: one list of events per frame. The list of frames is a finite
  prefix of a run; the result is the state after the last frame handled.
\<close>

fun main_loop :: "app_state \<Rightarrow> (world \<times> event) list list \<Rightarrow> error + app_state" where
  "main_loop st [] = Inr st"
| "main_loop st (frame # frames) =
     (if running st then
        (case handle_events st frame of
           Inl e \<Rightarrow> Inl e
         | Inr st' \<Rightarrow> main_loop st' frames)
      else Inr st)"

text \<open>
  How many handles started for key \<open>k\<close> have not been faded out: the successful
  \<^verbatim>\<open>play\<close> calls minus the \<^verbatim>\<open>fadeout\<close> calls recorded for \<open>k\<close>.
\<close>

fun starts :: "int \<Rightarrow> call \<Rightarrow> bool" where
  "starts k (Play pk (Some ch)) = (pk = k)"
| "starts k c = False"

fun stops :: "int \<Rightarrow> call \<Rightarrow> bool" where
  "stops k (Fadeout pk ch ms) = (pk = k)"
| "stops k c = False"

definition sounding :: "call list \<Rightarrow> int \<Rightarrow> int" where
  "sounding cs k = int (length (filter (starts k) cs)) - int (length (filter (stops k) cs))"

section \<open>Pitch mapping\<close>

lemma semitone_to_freq_pos: "0 < semitone_to_freq s oct"
  by (simp add: semitone_to_freq_def C4_FREQ_def)

lemma semitone_to_freq_strict_mono:
  assumes "s + 12 * oct < s' + 12 * oct'"
  shows "semitone_to_freq s oct < semitone_to_freq s' oct'"
proof -
  have "real_of_int (s + oct * 12) / 12 < real_of_int (s' + oct' * 12) / 12"
    using assms by simp
  then have "(2::real) powr (real_of_int (s + oct * 12) / 12)
      < 2 powr (real_of_int (s' + oct' * 12) / 12)"
    by simp
  then show ?thesis
    by (simp add: semitone_to_freq_def C4_FREQ_def)
qed

text \<open>
  Claim C1. For all semitone offsets and octave shifts (in particular offsets 0..12 and
  shifts -2..2), \<open>semitone_to_freq\<close> is \<open>261.625565 * 2^(k/12)\<close> with
  \<open>k = offset + 12 * shift\<close>, it is strictly positive and strictly increasing in \<open>k\<close>;
  the frequency of (0, 0) is 261.625565 and twelve semitones are one octave.
\<close>

theorem semitone_to_freq_equal_tempered:
  "semitone_to_freq s oct = 261.625565 * 2 powr (real_of_int (s + 12 * oct) / 12)
   \<and> 0 < semitone_to_freq s oct
   \<and> (s + 12 * oct < s' + 12 * oct' \<longrightarrow> semitone_to_freq s oct < semitone_to_freq s' oct')
   \<and> semitone_to_freq 0 0 = 261.625565
   \<and> semitone_to_freq 12 0 = semitone_to_freq 0 1"
proof (intro conjI impI)
  show "semitone_to_freq s oct = 261.625565 * 2 powr (real_of_int (s + 12 * oct) / 12)"
    by (simp add: semitone_to_freq_def C4_FREQ_def mult.commute)
  show "0 < semitone_to_freq s oct"
    by (rule semitone_to_freq_pos)
  show "semitone_to_freq s oct < semitone_to_freq s' oct'"
    if "s + 12 * oct < s' + 12 * oct'"
    using that by (rule semitone_to_freq_strict_mono)
  show "semitone_to_freq 0 0 = 261.625565"
    by (simp add: semitone_to_freq_def C4_FREQ_def)
  show "semitone_to_freq 12 0 = semitone_to_freq 0 1"
    by (simp add: semitone_to_freq_def)
qed

theorem semitone_to_freq_equal_tempered_witness:
  "(0::int) + 12 * (-2) < 12 + 12 * 2
   \<and> semitone_to_freq 0 (-2) < semitone_to_freq 12 2
   \<and> 0 < semitone_to_freq 0 (-2)
   \<and> semitone_to_freq 0 (-2) = 261.625565 * 2 powr (real_of_int (0 + 12 * (-2)) / 12)"
  using semitone_to_freq_equal_tempered [of 0 "-2" 12 2] by simp

section \<open>Wave generators\<close>

lemma wave_saw_range: "- 1 \<le> wave_saw phase \<and> wave_saw phase < 1"
proof -
  define x where "x = phase / (2 * pi)"
  define k where "k = real_of_int \<lfloor>0.5 + x\<rfloor>"
  have "k \<le> 0.5 + x" and "0.5 + x < k + 1"
    unfolding k_def by linarith+
  then have "- 1 \<le> 2 * (x - k) \<and> 2 * (x - k) < 1"
    by simp
  then show ?thesis
    by (simp add: wave_saw_def x_def k_def)
qed

text \<open>
  Claim C8. The sawtooth is \<open>2 * (phase/(2\<pi>) - floor (0.5 + phase/(2\<pi>)))\<close> and lies in
  \<open>[-1, 1)\<close>; the triangle is \<open>2 * |saw phase| - 1\<close> and lies in \<open>[-1, 1]\<close>; the sine
  lies in \<open>[-1, 1]\<close>; the square takes only the values -1, 0 and 1.
\<close>

theorem wave_generators_ranges:
  "wave_saw phase = 2 * (phase / (2 * pi) - real_of_int \<lfloor>0.5 + phase / (2 * pi)\<rfloor>)
   \<and> - 1 \<le> wave_saw phase \<and> wave_saw phase < 1
   \<and> wave_triangle phase = 2 * \<bar>wave_saw phase\<bar> - 1
   \<and> - 1 \<le> wave_triangle phase \<and> wave_triangle phase \<le> 1
   \<and> - 1 \<le> wave_sine phase \<and> wave_sine phase \<le> 1
   \<and> wave_square phase \<in> {- 1, 0, 1}"
proof -
  have saw: "- 1 \<le> wave_saw phase \<and> wave_saw phase < 1"
    by (rule wave_saw_range)
  then have tri: "- 1 \<le> wave_triangle phase \<and> wave_triangle phase \<le> 1"
    unfolding wave_triangle_def by linarith
  have sq: "wave_square phase \<in> {- 1, 0, 1}"
    by (simp add: wave_square_def sgn_real_def)
  show ?thesis
    using saw tri sq by (simp add: wave_saw_def wave_triangle_def wave_sine_def)
qed

section \<open>The envelope\<close>

lemma length_linspace [simp]: "length (linspace start stop num endpoint) = num"
  by (simp add: linspace_def Let_def)

lemma slice_index_le: "slice_index n i \<le> n"
  unfolding slice_index_def by (cases "i < 0") auto

lemma slice_bounds_le:
  "slice_bounds n lo hi = (l, h) \<Longrightarrow> l \<le> h \<and> h \<le> n"
  using slice_index_le [of n lo] slice_index_le [of n hi]
  by (auto simp: slice_bounds_def Let_def)

lemma set_slice_length:
  "set_slice env lo hi vals = Inr env' \<Longrightarrow> length env' = length env"
  by (auto simp: set_slice_def split: prod.splits if_splits dest!: slice_bounds_le)

lemma fill_slice_length [simp]: "length (fill_slice env lo hi v) = length env"
  by (auto simp: fill_slice_def split: prod.splits dest!: slice_bounds_le)

lemma slice_bounds_nonneg:
  "0 \<le> lo \<Longrightarrow> lo \<le> hi \<Longrightarrow> hi \<le> int n \<Longrightarrow> slice_bounds n lo hi = (nat lo, nat hi)"
  by (auto simp: slice_bounds_def Let_def slice_index_def)

lemma set_slice_fits:
  "0 \<le> lo \<Longrightarrow> 0 \<le> k \<Longrightarrow> lo + k \<le> int (length env) \<Longrightarrow> length vals = nat k \<Longrightarrow>
   set_slice env lo (lo + k) vals = Inr (take (nat lo) env @ vals @ drop (nat (lo + k)) env)"
  by (simp add: set_slice_def slice_bounds_nonneg nat_diff_distrib')

lemma attack_segment_length:
  "attack_segment a (env, idx) = Inr (env', idx') \<Longrightarrow> 0 \<le> idx \<Longrightarrow>
   length env' = length env \<and> 0 \<le> idx'"
  by (auto simp: attack_segment_def split: if_splits sum.splits dest: set_slice_length)

lemma decay_segment_length:
  "decay_segment d sustain (env, idx) = Inr (env', idx') \<Longrightarrow> 0 \<le> idx \<Longrightarrow>
   length env' = length env \<and> 0 \<le> idx'"
  by (auto simp: decay_segment_def split: if_splits sum.splits dest: set_slice_length)

lemma sustain_segment_length:
  "sustain_segment s sustain (env, idx) = (env', idx') \<Longrightarrow> 0 \<le> idx \<Longrightarrow>
   length env' = length env \<and> 0 \<le> idx'"
  by (auto simp: sustain_segment_def split: if_splits)

lemma release_segment_length:
  "release_segment r sustain (env, idx) = Inr (env', idx') \<Longrightarrow>
   length env' = length env"
  by (auto simp: release_segment_def split: if_splits sum.splits dest: set_slice_length)

lemma zero_tail_length [simp]: "length (zero_tail n (env, idx)) = length env"
  by (simp add: zero_tail_def)

lemma adsr_envelope_length:
  assumes "adsr_envelope n attack decay sustain release = Inr env"
  shows "length env = nat n \<and> 0 \<le> n"
proof -
  define a where "a = py_int (attack * real_of_int SAMPLE_RATE)"
  define d where "d = py_int (decay * real_of_int SAMPLE_RATE)"
  define r where "r = py_int (release * real_of_int SAMPLE_RATE)"
  define s where "s = max 0 (n - (a + d + r))"
  from assms obtain env0 st1 st2 st4 where
    z: "np_zeros n = Inr env0" and
    s1: "attack_segment a (env0, 0) = Inr st1" and
    s2: "decay_segment d sustain st1 = Inr st2" and
    s4: "release_segment r sustain (sustain_segment s sustain st2) = Inr st4" and
    e: "env = zero_tail n st4"
    by (auto simp: adsr_envelope_def Let_def a_def d_def r_def s_def split: sum.splits)
  from z have n: "0 \<le> n" and l0: "length env0 = nat n"
    by (auto simp: np_zeros_def split: if_splits)
  obtain e1 i1 where st1: "st1 = (e1, i1)" by (cases st1)
  obtain e2 i2 where st2: "st2 = (e2, i2)" by (cases st2)
  obtain e3 i3 where st3: "sustain_segment s sustain st2 = (e3, i3)"
    by (cases "sustain_segment s sustain st2")
  obtain e4 i4 where st4: "st4 = (e4, i4)" by (cases st4)
  from s1 st1 have l1: "length e1 = length env0 \<and> 0 \<le> i1"
    using attack_segment_length by blast
  from s2 st1 st2 l1 have l2: "length e2 = length e1 \<and> 0 \<le> i2"
    using decay_segment_length by blast
  from st3 st2 l2 have l3: "length e3 = length e2 \<and> 0 \<le> i3"
    using sustain_segment_length by blast
  from s4 st3 st4 have l4: "length e4 = length e3"
    using release_segment_length by metis
  show ?thesis
    using e st4 l4 l3 l2 l1 l0 n by simp
qed

lemma adsr_envelope_fits:
  assumes a: "0 \<le> py_int (attack * real_of_int SAMPLE_RATE)"
    and d: "0 \<le> py_int (decay * real_of_int SAMPLE_RATE)"
    and r: "0 \<le> py_int (release * real_of_int SAMPLE_RATE)"
    and n: "py_int (attack * real_of_int SAMPLE_RATE) + py_int (decay * real_of_int SAMPLE_RATE)
            + py_int (release * real_of_int SAMPLE_RATE) \<le> n"
  shows "\<exists>env. adsr_envelope n attack decay sustain release = Inr env"
proof -
  define a where "a = py_int (attack * real_of_int SAMPLE_RATE)"
  define d where "d = py_int (decay * real_of_int SAMPLE_RATE)"
  define r where "r = py_int (release * real_of_int SAMPLE_RATE)"
  define s where "s = max 0 (n - (a + d + r))"
  have a0: "0 \<le> a" and d0: "0 \<le> d" and r0: "0 \<le> r" and fit: "a + d + r \<le> n"
    using assms by (simp_all add: a_def d_def r_def)
  have s_eq: "s = n - (a + d + r)" using fit by (simp add: s_def)
  have n0: "0 \<le> n" using a0 d0 r0 fit by linarith
  define env0 where "env0 = replicate (nat n) (0::real)"
  have z: "np_zeros n = Inr env0" using n0 by (simp add: np_zeros_def env0_def)
  have l0: "int (length env0) = n" using n0 by (simp add: env0_def)
  obtain e1 where s1: "attack_segment a (env0, 0) = Inr (e1, a)" and l1: "int (length e1) = n"
  proof (cases "a > 0")
    case True
    have "set_slice env0 0 (0 + a) (linspace 0 1 (nat a) False)
        = Inr (take (nat 0) env0 @ linspace 0 1 (nat a) False @ drop (nat (0 + a)) env0)"
      using a0 d0 r0 fit l0 by (intro set_slice_fits) simp_all
    then show ?thesis
      using that True a0 d0 r0 fit l0 n0
      by (simp add: attack_segment_def env0_def min_def nat_diff_distrib')
  next
    case False
    then have "a = 0" using a0 by simp
    then show ?thesis using that l0 by (simp add: attack_segment_def)
  qed
  obtain e2 where s2: "decay_segment d sustain (e1, a) = Inr (e2, a + d)"
    and l2: "int (length e2) = n"
  proof (cases "d > 0")
    case True
    have ss: "set_slice e1 a (a + d) (linspace 1 sustain (nat d) False)
        = Inr (take (nat a) e1 @ linspace 1 sustain (nat d) False @ drop (nat (a + d)) e1)"
      using a0 d0 r0 fit l1 by (intro set_slice_fits) simp_all
    have "int (length (take (nat a) e1 @ linspace 1 sustain (nat d) False @ drop (nat (a + d)) e1)) = n"
      using set_slice_length [OF ss] l1 by simp
    then show ?thesis
      using that True ss by (simp add: decay_segment_def)
  next
    case False
    then have "d = 0" using d0 by simp
    then show ?thesis using that l1 by (simp add: decay_segment_def)
  qed
  obtain e3 where s3: "sustain_segment s sustain (e2, a + d) = (e3, a + d + s)"
    and l3: "int (length e3) = n"
  proof (cases "s > 0")
    case True
    then show ?thesis using that l2 by (simp add: sustain_segment_def)
  next
    case False
    then have "s = 0" by (simp add: s_def)
    then show ?thesis using that l2 by (simp add: sustain_segment_def)
  qed
  have idx3: "a + d + s + r = n" using s_eq by simp
  obtain st4 where s4: "release_segment r sustain (e3, a + d + s) = Inr st4"
  proof (cases "r > 0")
    case True
    have in_range: "a + d + s > 0 \<Longrightarrow> \<exists>v. get_item e3 (a + d + s - 1) = Inr v"
      using idx3 l3 True by (simp add: get_item_def Let_def)
    then obtain start where st: "(if a + d + s > 0 then get_item e3 (a + d + s - 1) else Inr sustain) = Inr start"
      by (cases "a + d + s > 0") auto
    have "set_slice e3 (a + d + s) (a + d + s + r) (linspace start 0 (nat r) True)
        = Inr (take (nat (a + d + s)) e3 @ linspace start 0 (nat r) True @ drop (nat (a + d + s + r)) e3)"
      using a0 d0 r0 idx3 l3 s_eq fit by (intro set_slice_fits) simp_all
    then show ?thesis
      using that True st by (simp add: release_segment_def)
  next
    case False
    then show ?thesis using that by (simp add: release_segment_def)
  qed
  show ?thesis
    using z s1 s2 s3 s4
    by (simp add: adsr_envelope_def Let_def a_def [symmetric] d_def [symmetric]
        r_def [symmetric] s_def [symmetric])
qed

text \<open>
  Claim C2. The claim says that \<open>adsr_envelope\<close> returns \<open>n\<close> values for every
  \<open>n \<ge> 0\<close> and all parameters, shortening or skipping the segments that do not fit.
  The code computes the sustain length with \<open>max(0, ...)\<close> but assigns the full-length
  ramps to slices that NumPy has cut at the end of the array: with the default parameters
  and \<open>n = 100\<close> the attack ramp has 441 values for a slice of 100, and the assignment
  raises \<^verbatim>\<open>ValueError\<close>.
\<close>

theorem adsr_envelope_short_note_raises:
  "adsr_envelope 100 0.01 0.08 0.6 0.15 = Inl ValueError"
  by (simp add: adsr_envelope_def Let_def py_int_def SAMPLE_RATE_def np_zeros_def
      attack_segment_def set_slice_def slice_bounds_def slice_index_def)

section \<open>The instrument synthesizer\<close>

lemma apply_envelope_length:
  assumes "apply_envelope sig (adsr_envelope n attack decay sustain release) = Inr out"
    and "length sig = nat n"
  shows "length out = nat n \<and> 0 \<le> n"
proof -
  from assms(1) obtain env where e: "adsr_envelope n attack decay sustain release = Inr env"
    and o: "out = map2 (*) sig env"
    by (auto simp: apply_envelope_def split: sum.splits)
  from adsr_envelope_length [OF e] o assms(2) show ?thesis by simp
qed

lemma apply_envelope_returns:
  assumes "0 \<le> py_int (attack * real_of_int SAMPLE_RATE)"
    and "0 \<le> py_int (decay * real_of_int SAMPLE_RATE)"
    and "0 \<le> py_int (release * real_of_int SAMPLE_RATE)"
    and "py_int (attack * real_of_int SAMPLE_RATE) + py_int (decay * real_of_int SAMPLE_RATE)
            + py_int (release * real_of_int SAMPLE_RATE) \<le> n"
  shows "\<exists>out. apply_envelope sig (adsr_envelope n attack decay sustain release) = Inr out"
  using adsr_envelope_fits [OF assms, of sustain]
  by (auto simp: apply_envelope_def)

lemma length_add_click [simp]: "length (add_click rnd n sig) = length sig"
  by (simp add: add_click_def Let_def)

lemma length_to_stereo [simp]: "length (to_stereo vol sig) = length sig"
  by (simp add: to_stereo_def Let_def)

lemma synth_note_length:
  assumes "synth_note rnd freq duration inst vol = Inr buf"
  shows "int (length buf) = py_int (duration * real_of_int SAMPLE_RATE)"
proof -
  define n where "n = py_int (duration * real_of_int SAMPLE_RATE)"
  have "length buf = nat n \<and> 0 \<le> n"
    using assms unfolding synth_note_def instrument_signal_def Let_def n_def [symmetric]
    by (auto split: if_splits sum.splits dest!: apply_envelope_length)
  then show ?thesis by (simp add: n_def)
qed

lemma isl_case_Inr [simp]:
  "isl (case x of Inl e \<Rightarrow> Inl e | Inr y \<Rightarrow> Inr (f y)) = isl x"
  by (cases x) simp_all

lemma apply_envelope_ok:
  assumes "0 \<le> attack" "0 \<le> decay" "0 \<le> release"
    and "py_int (attack * 44100) + py_int (decay * 44100) + py_int (release * 44100) \<le> n"
  shows "\<not> isl (apply_envelope sig (adsr_envelope n attack decay sustain release))"
proof -
  have "\<exists>out. apply_envelope sig (adsr_envelope n attack decay sustain release) = Inr out"
    using assms by (intro apply_envelope_returns) (simp_all add: SAMPLE_RATE_def py_int_def)
  then show ?thesis by auto
qed

lemma synth_note_returns:
  assumes "25269 \<le> py_int (duration * real_of_int SAMPLE_RATE)"
  shows "\<exists>buf. synth_note rnd freq duration inst vol = Inr buf"
proof -
  define n where "n = py_int (duration * real_of_int SAMPLE_RATE)"
  have n: "25269 \<le> n" using assms by (simp add: n_def)
  have e1: "\<not> isl (apply_envelope sig (adsr_envelope n 0.01 0.06 0.75 0.18))" for sig
    using n by (intro apply_envelope_ok) (simp_all add: py_int_def)
  have e2: "\<not> isl (apply_envelope sig (adsr_envelope n 0.005 0.05 0.55 0.12))" for sig
    using n by (intro apply_envelope_ok) (simp_all add: py_int_def)
  have e3: "\<not> isl (apply_envelope sig (adsr_envelope n 0.01 0.08 0.65 0.15))" for sig
    using n by (intro apply_envelope_ok) (simp_all add: py_int_def)
  have e4: "\<not> isl (apply_envelope sig (adsr_envelope n 0.01 0.10 0.5 0.18))" for sig
    using n by (intro apply_envelope_ok) (simp_all add: py_int_def)
  have e5: "\<not> isl (apply_envelope sig (adsr_envelope n 0.02 0.06 0.95 0.22))" for sig
    using n by (intro apply_envelope_ok) (simp_all add: py_int_def)
  have e6: "\<not> isl (apply_envelope sig (adsr_envelope n 0.002 0.20 0.12 0.35))" for sig
    using n by (intro apply_envelope_ok) (simp_all add: py_int_def)
  have e7: "\<not> isl (apply_envelope sig (adsr_envelope n 0.003 0.22 0.15 0.35))" for sig
    using n by (intro apply_envelope_ok) (simp_all add: py_int_def)
  have e8: "\<not> isl (apply_envelope sig (adsr_envelope n 0.002 0.04 0.6 0.08))" for sig
    using n by (intro apply_envelope_ok) (simp_all add: py_int_def)
  have e9: "\<not> isl (apply_envelope sig (adsr_envelope n 0.01 0.08 0.6 0.15))" for sig
    using n by (intro apply_envelope_ok) (simp_all add: py_int_def)
  have "\<not> isl (synth_note rnd freq duration inst vol)"
    unfolding synth_note_def instrument_signal_def Let_def n_def [symmetric]
    using e1 e2 e3 e4 e5 e6 e7 e8 e9 by simp
  then show ?thesis
    by (cases "synth_note rnd freq duration inst vol") simp_all
qed

lemma py_int_bounds:
  "- real_of_int k \<le> x \<Longrightarrow> x \<le> real_of_int k \<Longrightarrow> - k \<le> py_int x \<and> py_int x \<le> k"
  unfolding py_int_def by (auto simp: le_floor_iff ceiling_le_iff floor_le_iff le_ceiling_iff)

lemma np_clip_unit: "- 1 \<le> np_clip x (- 1) 1 \<and> np_clip x (- 1) 1 \<le> 1"
  by (simp add: np_clip_def)

lemma scaled_sample_bounds:
  assumes "0.05 \<le> vol" "vol \<le> 1"
  shows "- 32767 \<le> np_clip x (- 1) 1 * vol * 32767
       \<and> np_clip x (- 1) 1 * vol * 32767 \<le> 32767"
proof -
  define c where "c = np_clip x (- 1) 1"
  have c: "\<bar>c\<bar> \<le> 1" using np_clip_unit [of x] by (simp add: c_def abs_le_iff)
  have v: "\<bar>vol\<bar> \<le> 1" using assms by simp
  have "\<bar>c * vol\<bar> \<le> 1 * 1"
    unfolding abs_mult using c v by (intro mult_mono) simp_all
  then have "- 1 \<le> c * vol \<and> c * vol \<le> 1" by (simp add: abs_le_iff)
  then show ?thesis unfolding c_def [symmetric] by simp
qed

lemma quantized_sample:
  assumes "0.05 \<le> vol" "vol \<le> 1"
  shows "sint (astype_int16 (np_clip x (- 1) 1 * vol * 32767))
           = py_int (np_clip x (- 1) 1 * vol * 32767)
       \<and> - 32767 \<le> sint (astype_int16 (np_clip x (- 1) 1 * vol * 32767))
       \<and> sint (astype_int16 (np_clip x (- 1) 1 * vol * 32767)) \<le> 32767"
proof -
  define k where "k = py_int (np_clip x (- 1) 1 * vol * 32767)"
  have k: "- 32767 \<le> k \<and> k \<le> 32767"
    using py_int_bounds [of 32767 "np_clip x (- 1) 1 * vol * 32767"]
      scaled_sample_bounds [OF assms, of x] by (simp add: k_def)
  then have "sint (word_of_int k :: 16 word) = k"
    by (simp add: sint_sbintrunc' signed_take_bit_int_eq_self)
  then show ?thesis using k by (simp add: astype_int16_def k_def)
qed

lemma to_stereo_map:
  "to_stereo vol sig =
     map (\<lambda>x. (astype_int16 (np_clip x (- 1) 1 * vol * 32767),
               astype_int16 (np_clip x (- 1) 1 * vol * 32767))) sig"
  by (simp add: to_stereo_def Let_def zip_map_map zip_same_conv_map comp_def)

lemma synth_note_to_stereo:
  assumes "synth_note rnd freq duration inst vol = Inr buf"
  shows "\<exists>sig. buf = to_stereo vol sig"
  using assms unfolding synth_note_def instrument_signal_def Let_def
  by (cases "inst = ''Piano-ish''") (auto split: sum.splits)

lemma linspace_first: "0 < num \<Longrightarrow> linspace start stop num endpoint ! 0 = start"
  by (simp add: linspace_def Let_def)

lemma add_click_first:
  assumes "0 < n" "0 < length sig"
  shows "add_click rnd n sig ! 0 = sig ! 0 + rnd 0"
proof -
  define cl where "cl = nat (min (py_int (0.008 * real_of_int SAMPLE_RATE)) n)"
  have "py_int (0.008 * real_of_int SAMPLE_RATE) = 352"
    by (simp add: py_int_def SAMPLE_RATE_def)
  then have cl: "0 < cl" using assms by (simp add: cl_def)
  define burst where "burst = map2 (*) (map rnd [0..<cl]) (linspace 1 0 cl True)"
  have b: "0 < length burst" and b0: "burst ! 0 = rnd 0"
    using cl by (simp_all add: burst_def linspace_first)
  have t: "0 < length (take cl sig)" "take cl sig ! 0 = sig ! 0"
    using cl assms by simp_all
  have "add_click rnd n sig = map2 (+) (take cl sig) burst @ drop cl sig"
    by (simp add: add_click_def Let_def cl_def burst_def)
  moreover have "0 < length (map2 (+) (take cl sig) burst)"
    using t b by simp
  ultimately have "add_click rnd n sig ! 0 = map2 (+) (take cl sig) burst ! 0"
    by (simp add: nth_append)
  also have "\<dots> = sig ! 0 + rnd 0"
    using t b b0 by simp
  finally show ?thesis .
qed

lemma piano_first_sample:
  assumes "synth_note rnd freq duration ''Piano-ish'' vol = Inr buf"
    and n: "0 < py_int (duration * real_of_int SAMPLE_RATE)"
  shows "0 < length buf \<and> fst (buf ! 0) = astype_int16 (np_clip (rnd 0) (- 1) 1 * vol * 32767)"
proof -
  define n where "n = py_int (duration * real_of_int SAMPLE_RATE)"
  define g where "g = (\<lambda>p. 0.55 * wave_sine p + 0.28 * wave_sine (2 * p)
                              + 0.12 * wave_sine (3 * p) + 0.05 * wave_sine (4 * p))"
  define phase where "phase = map (\<lambda>x. 2 * pi * freq * x)
      (map (\<lambda>i. real i / real_of_int SAMPLE_RATE) [0..<nat n])"
  have n0: "0 < n" using assms(2) by (simp add: n_def)
  from assms(1) obtain sig where
    ae: "apply_envelope (map g phase) (adsr_envelope n 0.003 0.22 0.15 0.35) = Inr sig"
    and buf: "buf = to_stereo vol (add_click rnd n sig)"
    unfolding synth_note_def instrument_signal_def Let_def n_def [symmetric] g_def phase_def
    by (auto split: sum.splits)
  from ae obtain env where env: "adsr_envelope n 0.003 0.22 0.15 0.35 = Inr env"
    and sig: "sig = map2 (*) (map g phase) env"
    by (auto simp: apply_envelope_def split: sum.splits)
  have le: "length env = nat n" using adsr_envelope_length [OF env] by simp
  have lp: "length phase = nat n" by (simp add: phase_def)
  have p0: "phase ! 0 = 0" using n0 by (simp add: phase_def)
  have g0: "g 0 = 0" by (simp add: g_def wave_sine_def)
  have ls: "0 < length sig" using le lp n0 by (simp add: sig)
  have s0: "sig ! 0 = 0" using le lp n0 p0 g0 by (simp add: sig)
  have c0: "add_click rnd n sig ! 0 = rnd 0"
    using add_click_first [OF n0 ls] s0 by simp
  have lc: "0 < length (add_click rnd n sig)" using ls by simp
  show ?thesis
    using lc c0 by (simp add: buf to_stereo_map)
qed

text \<open>
  Claim C3, as stated: the buffer has \<open>round (duration * 44100)\<close> frames. The code
  computes the count with \<^verbatim>\<open>int(...)\<close>, which truncates: for a duration of
  1.00002 seconds the product is 44100.882, the buffer has 44100 frames and the rounded
  value is 44101.
\<close>

theorem synth_note_frames_not_rounded:
  "\<not> isl (synth_note no_noise 440 1.00002 ''Sine'' 0.5)
   \<and> int (length (projr (synth_note no_noise 440 1.00002 ''Sine'' 0.5))) = 44100
   \<and> round (1.00002 * real_of_int SAMPLE_RATE) = 44101"
proof -
  have n: "py_int (1.00002 * real_of_int SAMPLE_RATE) = 44100"
    by (simp add: py_int_def SAMPLE_RATE_def)
  then obtain buf where b: "synth_note no_noise 440 1.00002 ''Sine'' 0.5 = Inr buf"
    using synth_note_returns [of "1.00002" no_noise 440 "''Sine''" "0.5"] by auto
  have "int (length buf) = 44100"
    using synth_note_length [OF b] n by simp
  moreover have "round (1.00002 * real_of_int SAMPLE_RATE) = 44101"
    by (simp add: round_def SAMPLE_RATE_def)
  ultimately show ?thesis using b by simp
qed

text \<open>
  Claim C3, amended. For every instrument name, duration, frequency and volume, a buffer
  returned by \<open>synth_note\<close> has exactly \<open>int (duration * 44100)\<close> frames (truncation
  towards zero); and a buffer is returned whenever that count is at least 25269, which is
  enough for the attack, decay and release of every instrument.
\<close>

theorem synth_note_frame_count:
  "(\<forall>buf. synth_note rnd freq duration inst vol = Inr buf \<longrightarrow>
       int (length buf) = py_int (duration * real_of_int SAMPLE_RATE))
   \<and> (25269 \<le> py_int (duration * real_of_int SAMPLE_RATE) \<longrightarrow>
       (\<exists>buf. synth_note rnd freq duration inst vol = Inr buf))"
  using synth_note_length synth_note_returns by blast

theorem synth_note_frame_count_witness:
  "\<exists>buf. synth_note no_noise 440 1.00002 ''Sine'' 0.5 = Inr buf \<and> int (length buf) = 44100"
proof -
  have n: "py_int (1.00002 * real_of_int SAMPLE_RATE) = 44100"
    by (simp add: py_int_def SAMPLE_RATE_def)
  show ?thesis
    using synth_note_frame_count [of no_noise 440 "1.00002" "''Sine''" "0.5"] n by auto
qed

text \<open>
  Claim C4. For every instrument name except \<^verbatim>\<open>Piano-ish\<close>, the result of
  \<open>synth_note\<close> is a function of frequency, duration, instrument and volume alone: it
  does not depend on the values drawn from the random number generator, so two calls with
  the same arguments give the same buffer (or the same exception).
\<close>

theorem synth_note_deterministic:
  "inst \<noteq> ''Piano-ish'' \<Longrightarrow>
   synth_note rnd1 freq duration inst vol
     = synth_note rnd2 freq duration inst vol"
  by (simp add: synth_note_def instrument_signal_def Let_def)

theorem synth_note_deterministic_witness:
  "synth_note no_noise 440 1 ''Sine'' 0.5 = synth_note loud_noise 440 1 ''Sine'' 0.5"
  using synth_note_deterministic [of "''Sine''" no_noise 440 1 "0.5" loud_noise] by simp

text \<open>
  The exception of the claim is real: the first sample of a \<^verbatim>\<open>Piano-ish\<close> note
  is the first random draw (clipped, scaled and quantized), so two different draws give
  two different buffers.
\<close>

lemma synth_note_piano_depends_on_noise:
  "synth_note no_noise 440 1 ''Piano-ish'' 0.5 \<noteq> synth_note loud_noise 440 1 ''Piano-ish'' 0.5"
proof
  assume eq: "synth_note no_noise 440 1 ''Piano-ish'' 0.5
      = synth_note loud_noise 440 1 ''Piano-ish'' 0.5"
  have n: "py_int (1 * real_of_int SAMPLE_RATE) = 44100"
    by (simp add: py_int_def SAMPLE_RATE_def)
  then obtain buf where b: "synth_note no_noise 440 1 ''Piano-ish'' 0.5 = Inr buf"
    using synth_note_returns [of 1 no_noise 440 "''Piano-ish''" "0.5"] by auto
  have "fst (buf ! 0) = astype_int16 (np_clip (no_noise 0) (- 1) 1 * 0.5 * 32767)"
    using piano_first_sample [OF b] n by simp
  moreover have "fst (buf ! 0) = astype_int16 (np_clip (loud_noise 0) (- 1) 1 * 0.5 * 32767)"
    using piano_first_sample [OF b [unfolded eq]] n by simp
  ultimately show False
    by (simp add: astype_int16_def np_clip_def loud_noise_def no_noise_def py_int_def)
qed

text \<open>
  The signal of each named instrument, written with \<open>sin\<close>, \<open>sgn\<close> and the floor
  function: the weighted sum of its generators at the multiples of the phase, times its
  envelope.
\<close>

lemma instrument_signal_recipes:
  "instrument_signal rnd freq n t phase ''Sine''
     = apply_envelope (map sin phase) (adsr_envelope n 0.01 0.06 0.75 0.18)"
  "instrument_signal rnd freq n t phase ''Square''
     = apply_envelope (map (\<lambda>p. sgn (sin p)) phase) (adsr_envelope n 0.005 0.05 0.55 0.12)"
  "instrument_signal rnd freq n t phase ''Triangle''
     = apply_envelope
         (map (\<lambda>p. 2 * \<bar>2 * (p / (2 * pi) - real_of_int \<lfloor>0.5 + p / (2 * pi)\<rfloor>)\<bar> - 1) phase)
         (adsr_envelope n 0.01 0.08 0.65 0.15)"
  "instrument_signal rnd freq n t phase ''Saw''
     = apply_envelope
         (map (\<lambda>p. 2 * (p / (2 * pi) - real_of_int \<lfloor>0.5 + p / (2 * pi)\<rfloor>)) phase)
         (adsr_envelope n 0.01 0.10 0.5 0.18)"
  "instrument_signal rnd freq n t phase ''Organ''
     = apply_envelope (map (\<lambda>p. 0.70 * sin p + 0.20 * sin (2 * p) + 0.10 * sin (3 * p)) phase)
         (adsr_envelope n 0.02 0.06 0.95 0.22)"
  "instrument_signal rnd freq n t phase ''Bell''
     = apply_envelope
         (map (\<lambda>p. 0.70 * sin p + 0.35 * sin (2.71 * p) + 0.20 * sin (5.18 * p)) phase)
         (adsr_envelope n 0.002 0.20 0.12 0.35)"
  "instrument_signal rnd freq n t phase ''Piano-ish''
     = (case apply_envelope
               (map (\<lambda>p. 0.55 * sin p + 0.28 * sin (2 * p) + 0.12 * sin (3 * p)
                       + 0.05 * sin (4 * p)) phase)
               (adsr_envelope n 0.003 0.22 0.15 0.35) of
          Inl e \<Rightarrow> Inl e
        | Inr sig \<Rightarrow> Inr (add_click rnd n sig))"
  "instrument_signal rnd freq n t phase ''Chiptune''
     = apply_envelope
         (map (\<lambda>x. sgn (sin (2 * pi * freq * (1 + 0.003 * sin (2 * pi * 6 * x)) * x))) t)
         (adsr_envelope n 0.002 0.04 0.6 0.08)"
  by (simp_all add: instrument_signal_def wave_sine_def [abs_def] wave_square_def [abs_def]
      wave_saw_def [abs_def] wave_triangle_def [abs_def])

lemma piano_signal_first:
  assumes s: "instrument_signal rnd freq n t phase ''Piano-ish'' = Inr sig"
    and n0: "0 < n" and lp: "length phase = nat n" and p0: "phase ! 0 = 0"
  shows "0 < length sig \<and> sig ! 0 = rnd 0"
proof -
  define g where "g = (\<lambda>p. 0.55 * wave_sine p + 0.28 * wave_sine (2 * p)
                              + 0.12 * wave_sine (3 * p) + 0.05 * wave_sine (4 * p))"
  from s obtain sig0 where
    ae: "apply_envelope (map g phase) (adsr_envelope n 0.003 0.22 0.15 0.35) = Inr sig0"
    and sig: "sig = add_click rnd n sig0"
    unfolding instrument_signal_def g_def by (auto split: sum.splits)
  from ae obtain env where env: "adsr_envelope n 0.003 0.22 0.15 0.35 = Inr env"
    and sig0: "sig0 = map2 (*) (map g phase) env"
    by (auto simp: apply_envelope_def split: sum.splits)
  have le: "length env = nat n" using adsr_envelope_length [OF env] by simp
  have g0: "g 0 = 0" by (simp add: g_def wave_sine_def)
  have ls: "0 < length sig0" using le lp n0 by (simp add: sig0)
  have s0: "sig0 ! 0 = 0" using le lp n0 p0 g0 by (simp add: sig0)
  show ?thesis
    using add_click_first [OF n0 ls, of rnd] s0 ls by (simp add: sig)
qed

text \<open>
  Claim C6. For a volume in \<open>[0.05, 1]\<close>, \<open>synth_note\<close> takes the signal \<open>sig\<close> of the
  instrument (\<open>instrument_signal\<close>, the sum of the generators times the envelope), and
  frame \<open>i\<close> of the buffer it returns holds in both channels the 16-bit integer obtained
  from \<open>sig ! i\<close> by clipping to \<open>[-1, 1]\<close> first, then multiplying by the volume, then
  multiplying by 32767 and truncating towards zero, without wrap-around; an exception of
  the instrument's signal is the exception of \<open>synth_note\<close>. So every sample lies in
  \<open>[-32767, 32767]\<close> and left equals right in every frame. A buffer is returned whenever
  the note has at least 25269 samples.
\<close>

theorem synth_note_clip_scale_quantize:
  "0.05 \<le> vol \<and> vol \<le> 1 \<longrightarrow>
   (\<forall>e. instrument_signal rnd freq (py_int (duration * real_of_int SAMPLE_RATE))
           (map (\<lambda>i. real i / real_of_int SAMPLE_RATE)
              [0..<nat (py_int (duration * real_of_int SAMPLE_RATE))])
           (map (\<lambda>i. 2 * pi * freq * (real i / real_of_int SAMPLE_RATE))
              [0..<nat (py_int (duration * real_of_int SAMPLE_RATE))]) inst = Inl e \<longrightarrow>
        synth_note rnd freq duration inst vol = Inl e)
   \<and> (\<forall>sig. instrument_signal rnd freq (py_int (duration * real_of_int SAMPLE_RATE))
           (map (\<lambda>i. real i / real_of_int SAMPLE_RATE)
              [0..<nat (py_int (duration * real_of_int SAMPLE_RATE))])
           (map (\<lambda>i. 2 * pi * freq * (real i / real_of_int SAMPLE_RATE))
              [0..<nat (py_int (duration * real_of_int SAMPLE_RATE))]) inst = Inr sig \<longrightarrow>
        (\<exists>buf. synth_note rnd freq duration inst vol = Inr buf
           \<and> length buf = length sig
           \<and> (\<forall>i<length sig.
                 snd (buf ! i) = fst (buf ! i)
                 \<and> sint (fst (buf ! i)) =
                     (if 0 \<le> min 1 (max (sig ! i) (- 1)) * vol * 32767
                      then \<lfloor>min 1 (max (sig ! i) (- 1)) * vol * 32767\<rfloor>
                      else \<lceil>min 1 (max (sig ! i) (- 1)) * vol * 32767\<rceil>)
                 \<and> - 32767 \<le> sint (fst (buf ! i)) \<and> sint (fst (buf ! i)) \<le> 32767)))
   \<and> (\<forall>buf. synth_note rnd freq duration inst vol = Inr buf \<longrightarrow>
        (\<forall>(l, r) \<in> set buf. l = r \<and> - 32767 \<le> sint l \<and> sint l \<le> 32767))
   \<and> (25269 \<le> py_int (duration * real_of_int SAMPLE_RATE) \<longrightarrow>
       (\<exists>buf. synth_note rnd freq duration inst vol = Inr buf))"
proof (intro impI conjI allI)
  fix e
  assume "instrument_signal rnd freq (py_int (duration * real_of_int SAMPLE_RATE))
           (map (\<lambda>i. real i / real_of_int SAMPLE_RATE)
              [0..<nat (py_int (duration * real_of_int SAMPLE_RATE))])
           (map (\<lambda>i. 2 * pi * freq * (real i / real_of_int SAMPLE_RATE))
              [0..<nat (py_int (duration * real_of_int SAMPLE_RATE))]) inst = Inl e"
  then show "synth_note rnd freq duration inst vol = Inl e"
    by (simp add: synth_note_def Let_def comp_def)
next
  fix sig
  assume v: "0.05 \<le> vol \<and> vol \<le> 1"
    and s: "instrument_signal rnd freq (py_int (duration * real_of_int SAMPLE_RATE))
           (map (\<lambda>i. real i / real_of_int SAMPLE_RATE)
              [0..<nat (py_int (duration * real_of_int SAMPLE_RATE))])
           (map (\<lambda>i. 2 * pi * freq * (real i / real_of_int SAMPLE_RATE))
              [0..<nat (py_int (duration * real_of_int SAMPLE_RATE))]) inst = Inr sig"
  have b: "synth_note rnd freq duration inst vol = Inr (to_stereo vol sig)"
    using s by (simp add: synth_note_def Let_def comp_def)
  have len: "length (to_stereo vol sig) = length sig" by simp
  have props: "snd (to_stereo vol sig ! i) = fst (to_stereo vol sig ! i)
      \<and> sint (fst (to_stereo vol sig ! i)) =
          (if 0 \<le> min 1 (max (sig ! i) (- 1)) * vol * 32767
           then \<lfloor>min 1 (max (sig ! i) (- 1)) * vol * 32767\<rfloor>
           else \<lceil>min 1 (max (sig ! i) (- 1)) * vol * 32767\<rceil>)
      \<and> - 32767 \<le> sint (fst (to_stereo vol sig ! i))
      \<and> sint (fst (to_stereo vol sig ! i)) \<le> 32767"
    if "i < length sig" for i
    using that quantized_sample [of vol "sig ! i"] v
    by (simp add: to_stereo_map py_int_def np_clip_def)
  from props show "\<exists>buf. synth_note rnd freq duration inst vol = Inr buf
           \<and> length buf = length sig
           \<and> (\<forall>i<length sig.
                 snd (buf ! i) = fst (buf ! i)
                 \<and> sint (fst (buf ! i)) =
                     (if 0 \<le> min 1 (max (sig ! i) (- 1)) * vol * 32767
                      then \<lfloor>min 1 (max (sig ! i) (- 1)) * vol * 32767\<rfloor>
                      else \<lceil>min 1 (max (sig ! i) (- 1)) * vol * 32767\<rceil>)
                 \<and> - 32767 \<le> sint (fst (buf ! i)) \<and> sint (fst (buf ! i)) \<le> 32767)"
    using b len by blast
next
  fix buf
  assume v: "0.05 \<le> vol \<and> vol \<le> 1"
    and b: "synth_note rnd freq duration inst vol = Inr buf"
  from synth_note_to_stereo [OF b] obtain sig where s: "buf = to_stereo vol sig" ..
  show "\<forall>(l, r) \<in> set buf. l = r \<and> - 32767 \<le> sint l \<and> sint l \<le> 32767"
  proof (clarify)
    fix l r
    assume "(l, r) \<in> set buf"
    then obtain x where "l = astype_int16 (np_clip x (- 1) 1 * vol * 32767)"
      and "r = astype_int16 (np_clip x (- 1) 1 * vol * 32767)"
      unfolding s to_stereo_map by auto
    then show "l = r \<and> - 32767 \<le> sint l \<and> sint l \<le> 32767"
      using quantized_sample [of vol x] v by blast
  qed
next
  assume "25269 \<le> py_int (duration * real_of_int SAMPLE_RATE)"
  then show "\<exists>buf. synth_note rnd freq duration inst vol = Inr buf"
    by (rule synth_note_returns)
qed

theorem synth_note_clip_scale_quantize_witness:
  "\<exists>buf. synth_note loud_noise 440 1 ''Piano-ish'' 0.5 = Inr buf
     \<and> length buf = 44100
     \<and> snd (buf ! 0) = fst (buf ! 0)
     \<and> sint (fst (buf ! 0)) = 1638"
proof -
  define n where "n = py_int (1 * real_of_int SAMPLE_RATE)"
  define t where "t = map (\<lambda>i. real i / real_of_int SAMPLE_RATE) [0..<nat n]"
  define phase where
    "phase = map (\<lambda>i. 2 * pi * 440 * (real i / real_of_int SAMPLE_RATE)) [0..<nat n]"
  have n: "n = 44100" by (simp add: n_def py_int_def SAMPLE_RATE_def)
  have v: "(0.05::real) \<le> 0.5 \<and> (0.5::real) \<le> 1" by simp
  obtain buf where b: "synth_note loud_noise 440 1 ''Piano-ish'' 0.5 = Inr buf"
    using synth_note_returns [of 1 loud_noise 440 "''Piano-ish''" "0.5"] n
    by (auto simp: n_def)
  then obtain sig where s: "instrument_signal loud_noise 440 n t phase ''Piano-ish'' = Inr sig"
    by (auto simp: synth_note_def Let_def comp_def n_def t_def phase_def split: sum.splits)
  have first: "0 < length sig \<and> sig ! 0 = loud_noise 0"
    using s by (rule piano_signal_first) (simp_all add: n phase_def)
  from synth_note_clip_scale_quantize [of "0.5" loud_noise 440 1 "''Piano-ish''"] v s
  have "length buf = length sig
      \<and> (\<forall>i<length sig. snd (buf ! i) = fst (buf ! i)
            \<and> sint (fst (buf ! i)) =
                (if 0 \<le> min 1 (max (sig ! i) (- 1)) * 0.5 * 32767
                 then \<lfloor>min 1 (max (sig ! i) (- 1)) * 0.5 * 32767\<rfloor>
                 else \<lceil>min 1 (max (sig ! i) (- 1)) * 0.5 * 32767\<rceil>))"
    unfolding n_def t_def phase_def using b by auto
  with first have "snd (buf ! 0) = fst (buf ! 0)"
    and "sint (fst (buf ! 0)) =
                (if 0 \<le> min 1 (max (loud_noise 0) (- 1)) * 0.5 * 32767
                 then \<lfloor>min 1 (max (loud_noise 0) (- 1)) * 0.5 * 32767\<rfloor>
                 else \<lceil>min 1 (max (loud_noise 0) (- 1)) * 0.5 * 32767\<rceil>)"
    by auto
  then have "snd (buf ! 0) = fst (buf ! 0) \<and> sint (fst (buf ! 0)) = 1638"
    by (simp add: loud_noise_def)
  moreover have "length buf = 44100"
    using synth_note_length [OF b] by (simp add: py_int_def SAMPLE_RATE_def)
  ultimately show ?thesis using b by blast
qed

lemma synth_note_unknown_instrument:
  assumes "inst \<notin> {''Sine'', ''Square'', ''Triangle'', ''Saw'', ''Organ'', ''Bell'',
      ''Piano-ish'', ''Chiptune''}"
  shows "synth_note rnd freq duration inst vol =
     (let n = py_int (duration * real_of_int SAMPLE_RATE);
          phase = map (\<lambda>i. 2 * pi * freq * (real i / real_of_int SAMPLE_RATE)) [0..<nat n]
      in case adsr_envelope n 0.01 0.08 0.6 0.15 of
           Inl e \<Rightarrow> Inl e
         | Inr env \<Rightarrow> Inr (to_stereo vol (map2 (*) (map wave_sine phase) env)))"
  using assms by (simp add: synth_note_def instrument_signal_def Let_def apply_envelope_def comp_def split: sum.splits)

text \<open>
  Claim C7. The claim says that \<open>synth_note\<close> never raises for an unrecognised
  instrument name. The name itself is handled as claimed
  (\<open>synth_note_unknown_instrument\<close>: the sine at the carrier phase times the default
  envelope, then the common last steps), but the default envelope raises for a note
  shorter than its attack, decay and release: a note of 0.001 seconds has 44 samples and
  the attack ramp has 441.
\<close>

theorem synth_note_unknown_short_note_raises:
  "synth_note no_noise 440 0.001 ''Kazoo'' 0.5 = Inl ValueError"
proof -
  have n: "py_int (0.001 * real_of_int SAMPLE_RATE) = 44"
    by (simp add: py_int_def SAMPLE_RATE_def)
  have e: "adsr_envelope 44 0.01 0.08 0.6 0.15 = Inl ValueError"
    by (simp add: adsr_envelope_def Let_def py_int_def SAMPLE_RATE_def np_zeros_def
      attack_segment_def set_slice_def slice_bounds_def slice_index_def)
  show ?thesis
    using e n by (simp add: synth_note_unknown_instrument Let_def)
qed

section \<open>The sound cache\<close>

lemma note_duration_samples: "py_int (note_duration * real_of_int SAMPLE_RATE) = 264600"
  by (simp add: note_duration_def SAMPLE_RATE_def py_int_def)

lemma synth_note_held_returns:
  "\<exists>audio. synth_note rnd freq note_duration inst vol = Inr audio"
  by (rule synth_note_returns) (simp add: note_duration_samples)

lemma get_sound_hit:
  "sound_cache st (inst, octv, semitone, py_round (volume st) 3) = Some sd \<Longrightarrow>
   get_sound rnd st inst octv semitone = Inr (sd, st)"
  by (simp add: get_sound_def)

lemma get_sound_miss:
  assumes "sound_cache st (inst, octv, semitone, py_round (volume st) 3) = None"
  shows "\<exists>audio.
     synth_note rnd (semitone_to_freq semitone octv) note_duration inst (volume st) = Inr audio
     \<and> get_sound rnd st inst octv semitone =
         Inr (audio,
              st\<lparr>sound_cache :=
                    (sound_cache st)((inst, octv, semitone, py_round (volume st) 3) \<mapsto> audio),
                 calls := calls st @
                    [Synth (semitone_to_freq semitone octv) note_duration inst (volume st)]\<rparr>)"
proof -
  obtain audio where
    "synth_note rnd (semitone_to_freq semitone octv) note_duration inst (volume st) = Inr audio"
    using synth_note_held_returns by blast
  then show ?thesis using assms by (simp add: get_sound_def Let_def)
qed

text \<open>
  Claim C5. For every key (instrument, octave shift, semitone offset, volume rounded to 3
  decimals): when the key is in the cache, \<open>get_sound\<close> returns the stored sound and
  leaves the state as it is, so \<open>synth_note\<close> is not called; when the key is missing,
  \<open>synth_note\<close> is called exactly once, its result is stored under the key and returned,
  and a repeated call returns that stored sound without another call; and after the cache
  has been cleared, \<open>get_sound\<close> computes the sound again for any key.
\<close>

theorem get_sound_cache_correct:
  "(\<forall>sd. sound_cache st (inst, octv, semitone, py_round (volume st) 3) = Some sd \<longrightarrow>
       get_sound rnd st inst octv semitone = Inr (sd, st))
   \<and> (sound_cache st (inst, octv, semitone, py_round (volume st) 3) = None \<longrightarrow>
       (\<exists>audio st'.
          synth_note rnd (semitone_to_freq semitone octv) note_duration inst (volume st)
            = Inr audio
          \<and> st' = st\<lparr>sound_cache :=
                       (sound_cache st)((inst, octv, semitone, py_round (volume st) 3) \<mapsto> audio),
                     calls := calls st @
                       [Synth (semitone_to_freq semitone octv) note_duration inst (volume st)]\<rparr>
          \<and> get_sound rnd st inst octv semitone = Inr (audio, st')
          \<and> get_sound rnd' st' inst octv semitone = Inr (audio, st')))
   \<and> (\<exists>audio.
          synth_note rnd (semitone_to_freq semitone octv) note_duration inst (volume st)
            = Inr audio
          \<and> get_sound rnd (st\<lparr>sound_cache := Map.empty\<rparr>) inst octv semitone =
              Inr (audio,
                   st\<lparr>sound_cache :=
                         [(inst, octv, semitone, py_round (volume st) 3) \<mapsto> audio],
                      calls := calls st @
                         [Synth (semitone_to_freq semitone octv) note_duration inst (volume st)]\<rparr>))"
proof (intro conjI allI impI)
  fix sd
  assume "sound_cache st (inst, octv, semitone, py_round (volume st) 3) = Some sd"
  then show "get_sound rnd st inst octv semitone = Inr (sd, st)"
    by (rule get_sound_hit)
next
  assume none: "sound_cache st (inst, octv, semitone, py_round (volume st) 3) = None"
  from get_sound_miss [OF none, of rnd] obtain audio where
    a: "synth_note rnd (semitone_to_freq semitone octv) note_duration inst (volume st) = Inr audio"
    and g: "get_sound rnd st inst octv semitone =
         Inr (audio,
              st\<lparr>sound_cache :=
                    (sound_cache st)((inst, octv, semitone, py_round (volume st) 3) \<mapsto> audio),
                 calls := calls st @
                    [Synth (semitone_to_freq semitone octv) note_duration inst (volume st)]\<rparr>)"
    by blast
  define st' where "st' = st\<lparr>sound_cache :=
                    (sound_cache st)((inst, octv, semitone, py_round (volume st) 3) \<mapsto> audio),
                 calls := calls st @
                    [Synth (semitone_to_freq semitone octv) note_duration inst (volume st)]\<rparr>"
  have "sound_cache st' (inst, octv, semitone, py_round (volume st') 3) = Some audio"
    by (simp add: st'_def)
  then have "get_sound rnd' st' inst octv semitone = Inr (audio, st')"
    by (rule get_sound_hit)
  with a g show "\<exists>audio st'.
          synth_note rnd (semitone_to_freq semitone octv) note_duration inst (volume st)
            = Inr audio
          \<and> st' = st\<lparr>sound_cache :=
                       (sound_cache st)((inst, octv, semitone, py_round (volume st) 3) \<mapsto> audio),
                     calls := calls st @
                       [Synth (semitone_to_freq semitone octv) note_duration inst (volume st)]\<rparr>
          \<and> get_sound rnd st inst octv semitone = Inr (audio, st')
          \<and> get_sound rnd' st' inst octv semitone = Inr (audio, st')"
    unfolding st'_def by blast
next
  have "sound_cache (st\<lparr>sound_cache := Map.empty\<rparr>)
      (inst, octv, semitone, py_round (volume (st\<lparr>sound_cache := Map.empty\<rparr>)) 3) = None"
    by simp
  from get_sound_miss [OF this, of rnd]
  show "\<exists>audio.
          synth_note rnd (semitone_to_freq semitone octv) note_duration inst (volume st)
            = Inr audio
          \<and> get_sound rnd (st\<lparr>sound_cache := Map.empty\<rparr>) inst octv semitone =
              Inr (audio,
                   st\<lparr>sound_cache :=
                         [(inst, octv, semitone, py_round (volume st) 3) \<mapsto> audio],
                      calls := calls st @
                         [Synth (semitone_to_freq semitone octv) note_duration inst (volume st)]\<rparr>)"
    by simp
qed

theorem get_sound_cache_correct_witness:
  "get_sound no_noise
      (init_state\<lparr>sound_cache := [(''Sine'', 0, 0, py_round 0.45 3) \<mapsto> []]\<rparr>) ''Sine'' 0 0
     = Inr ([], init_state\<lparr>sound_cache := [(''Sine'', 0, 0, py_round 0.45 3) \<mapsto> []]\<rparr>)
   \<and> (\<exists>audio.
        synth_note no_noise (semitone_to_freq 0 0) note_duration ''Sine'' 0.45 = Inr audio
        \<and> get_sound no_noise init_state ''Sine'' 0 0 =
            Inr (audio,
                 init_state\<lparr>sound_cache := [(''Sine'', 0, 0, py_round 0.45 3) \<mapsto> audio],
                   calls := [Synth (semitone_to_freq 0 0) note_duration ''Sine'' 0.45]\<rparr>))"
proof -
  define st where "st = init_state\<lparr>sound_cache := [(''Sine'', 0, 0, py_round 0.45 3) \<mapsto> []]\<rparr>"
  have v: "volume st = 0.45" "volume init_state = 0.45" "calls init_state = []"
    "sound_cache init_state = Map.empty"
    by (simp_all add: st_def init_state_def)
  have hit: "sound_cache st (''Sine'', 0, 0, py_round (volume st) 3) = Some []"
    unfolding v by (simp add: st_def)
  have miss: "sound_cache init_state (''Sine'', 0, 0, py_round (volume init_state) 3) = None"
    by (simp add: init_state_def)
  have 1: "get_sound no_noise st ''Sine'' 0 0 = Inr ([], st)"
    using get_sound_cache_correct [of st "''Sine''" 0 0 no_noise no_noise] hit by blast
  have 2: "\<exists>audio.
        synth_note no_noise (semitone_to_freq 0 0) note_duration ''Sine'' 0.45 = Inr audio
        \<and> get_sound no_noise init_state ''Sine'' 0 0 =
            Inr (audio,
                 init_state\<lparr>sound_cache := [(''Sine'', 0, 0, py_round 0.45 3) \<mapsto> audio],
                   calls := [Synth (semitone_to_freq 0 0) note_duration ''Sine'' 0.45]\<rparr>)"
    using get_sound_cache_correct [of init_state "''Sine''" 0 0 no_noise no_noise] miss
    by (auto simp: v)
  show ?thesis using 1 2 unfolding st_def by blast
qed

text \<open>
  Claim C10. The key holds the volume rounded to 3 decimals, the audio is scaled by the
  volume itself: when a call of \<open>get_sound\<close> is followed, without a clear of the cache,
  by a call with the same instrument, octave and semitone at a volume \<open>v2\<close> that rounds to
  the same value, the second call returns the sound of the first call and calls
  \<open>synth_note\<close> no more; the sound is the one rendered with the first volume when the
  first call rendered it.
\<close>

theorem get_sound_rounded_volume_key:
  assumes "py_round v2 3 = py_round (volume st) 3"
  shows "\<exists>sd st1.
     get_sound rnd st inst octv semitone = Inr (sd, st1)
     \<and> get_sound rnd' (st1\<lparr>volume := v2\<rparr>) inst octv semitone = Inr (sd, st1\<lparr>volume := v2\<rparr>)
     \<and> (sound_cache st (inst, octv, semitone, py_round (volume st) 3) = None \<longrightarrow>
          synth_note rnd (semitone_to_freq semitone octv) note_duration inst (volume st)
            = Inr sd
          \<and> calls st1 = calls st @
              [Synth (semitone_to_freq semitone octv) note_duration inst (volume st)])"
proof (cases "sound_cache st (inst, octv, semitone, py_round (volume st) 3)")
  case (Some sd)
  have 1: "get_sound rnd st inst octv semitone = Inr (sd, st)"
    using Some by (rule get_sound_hit)
  have "sound_cache (st\<lparr>volume := v2\<rparr>)
      (inst, octv, semitone, py_round (volume (st\<lparr>volume := v2\<rparr>)) 3) = Some sd"
    using Some assms by simp
  then have "get_sound rnd' (st\<lparr>volume := v2\<rparr>) inst octv semitone = Inr (sd, st\<lparr>volume := v2\<rparr>)"
    by (rule get_sound_hit)
  with 1 Some show ?thesis by auto
next
  case None
  from get_sound_miss [OF None, of rnd] obtain audio where
    a: "synth_note rnd (semitone_to_freq semitone octv) note_duration inst (volume st) = Inr audio"
    and g: "get_sound rnd st inst octv semitone =
         Inr (audio,
              st\<lparr>sound_cache :=
                    (sound_cache st)((inst, octv, semitone, py_round (volume st) 3) \<mapsto> audio),
                 calls := calls st @
                    [Synth (semitone_to_freq semitone octv) note_duration inst (volume st)]\<rparr>)"
    by blast
  define st1 where "st1 = st\<lparr>sound_cache :=
                    (sound_cache st)((inst, octv, semitone, py_round (volume st) 3) \<mapsto> audio),
                 calls := calls st @
                    [Synth (semitone_to_freq semitone octv) note_duration inst (volume st)]\<rparr>"
  have "sound_cache (st1\<lparr>volume := v2\<rparr>)
      (inst, octv, semitone, py_round (volume (st1\<lparr>volume := v2\<rparr>)) 3) = Some audio"
    using assms by (simp add: st1_def)
  then have "get_sound rnd' (st1\<lparr>volume := v2\<rparr>) inst octv semitone
      = Inr (audio, st1\<lparr>volume := v2\<rparr>)"
    by (rule get_sound_hit)
  moreover have "calls st1 = calls st @
              [Synth (semitone_to_freq semitone octv) note_duration inst (volume st)]"
    by (simp add: st1_def)
  ultimately show ?thesis using a g unfolding st1_def [symmetric] by blast
qed

theorem get_sound_rounded_volume_key_witness:
  "py_round 0.4504 3 = py_round (volume (init_state\<lparr>volume := 0.4496\<rparr>)) 3
   \<and> (\<exists>sd st1.
        get_sound loud_noise (init_state\<lparr>volume := 0.4496\<rparr>) ''Piano-ish'' 0 0 = Inr (sd, st1)
        \<and> get_sound loud_noise (st1\<lparr>volume := 0.4504\<rparr>) ''Piano-ish'' 0 0
            = Inr (sd, st1\<lparr>volume := 0.4504\<rparr>)
        \<and> synth_note loud_noise (semitone_to_freq 0 0) note_duration ''Piano-ish'' 0.4496 = Inr sd
        \<and> synth_note loud_noise (semitone_to_freq 0 0) note_duration ''Piano-ish'' 0.4504 \<noteq> Inr sd)"
proof -
  define st where "st = init_state\<lparr>volume := 0.4496\<rparr>"
  have v: "volume st = 0.4496" by (simp add: st_def)
  have r: "py_round 0.4504 3 = py_round (volume st) 3"
    unfolding v by (simp add: py_round_def Let_def)
  have miss: "sound_cache st (''Piano-ish'', 0, 0, py_round (volume st) 3) = None"
    by (simp add: st_def init_state_def)
  from get_sound_rounded_volume_key [OF r, of loud_noise "''Piano-ish''" 0 0 loud_noise] miss
  obtain sd st1 where
    1: "get_sound loud_noise st ''Piano-ish'' 0 0 = Inr (sd, st1)"
    and 2: "get_sound loud_noise (st1\<lparr>volume := 0.4504\<rparr>) ''Piano-ish'' 0 0
            = Inr (sd, st1\<lparr>volume := 0.4504\<rparr>)"
    and 3: "synth_note loud_noise (semitone_to_freq 0 0) note_duration ''Piano-ish'' 0.4496 = Inr sd"
    unfolding v by blast
  have n: "0 < py_int (note_duration * real_of_int SAMPLE_RATE)"
    by (simp add: note_duration_samples)
  have a: "fst (sd ! 0) = astype_int16 (np_clip (loud_noise 0) (- 1) 1 * 0.4496 * 32767)"
    using piano_first_sample [OF 3 n] by simp
  have "synth_note loud_noise (semitone_to_freq 0 0) note_duration ''Piano-ish'' 0.4504 \<noteq> Inr sd"
  proof
    assume 4: "synth_note loud_noise (semitone_to_freq 0 0) note_duration ''Piano-ish'' 0.4504 = Inr sd"
    have "fst (sd ! 0) = astype_int16 (np_clip (loud_noise 0) (- 1) 1 * 0.4504 * 32767)"
      using piano_first_sample [OF 4 n] by simp
    with a show False
      by (simp add: astype_int16_def np_clip_def loud_noise_def py_int_def)
  qed
  with 1 2 3 r show ?thesis unfolding st_def by blast
qed

section \<open>Active channels\<close>

lemma sounding_append_Synth [simp]:
  "sounding (cs @ [Synth f d i v]) k = sounding cs k"
  by (simp add: sounding_def)

lemma sounding_append_Play_None [simp]:
  "sounding (cs @ [Play pk None]) k = sounding cs k"
  by (simp add: sounding_def)

lemma sounding_append_Play_Some [simp]:
  "sounding (cs @ [Play pk (Some c)]) k = sounding cs k + (if pk = k then 1 else 0)"
  by (simp add: sounding_def)

lemma sounding_append_Fadeout [simp]:
  "sounding (cs @ [Fadeout pk c ms]) k = sounding cs k - (if pk = k then 1 else 0)"
  by (simp add: sounding_def)

lemma get_sound_frame:
  assumes "get_sound rnd st inst octv semitone = Inr (sd, st')"
  shows "active_channels st' = active_channels st \<and> instrument st' = instrument st
     \<and> octave_shift st' = octave_shift st \<and> volume st' = volume st
     \<and> running st' = running st \<and> sounding (calls st') k = sounding (calls st) k"
  using assms
  by (auto simp: get_sound_def Let_def split: option.splits sum.splits)

lemma get_sound_returns: "\<exists>sd st'. get_sound rnd st inst octv semitone = Inr (sd, st')"
proof (cases "sound_cache st (inst, octv, semitone, py_round (volume st) 3)")
  case None
  then show ?thesis using get_sound_miss [OF None] by blast
next
  case (Some sd)
  then show ?thesis using get_sound_hit by blast
qed

lemma press_keys_invariant:
  assumes "\<And>k. sounding (calls st) k = (if active_channels st k = None then 0 else 1)"
  shows "\<exists>st'. press_keys w key km st = Inr st'
     \<and> running st' = running st
     \<and> (\<forall>k. sounding (calls st') k = (if active_channels st' k = None then 0 else 1))"
  using assms
proof (induction km arbitrary: st)
  case Nil
  then show ?case by simp
next
  case (Cons entry km)
  obtain pk semi is_black label where entry: "entry = (pk, semi, is_black, label)"
    by (cases entry)
  show ?case
  proof (cases "key = pk \<and> active_channels st pk = None")
    case False
    then show ?thesis using Cons.IH [of st] Cons.prems by (auto simp: entry)
  next
    case True
    obtain sd st1 where g: "get_sound (fst w) st (instrument st) (octave_shift st) semi = Inr (sd, st1)"
      using get_sound_returns by blast
    note fr = get_sound_frame [OF g]
    define st2 where "st2 = st1\<lparr>calls := calls st1 @ [Play pk (snd w)]\<rparr>"
    define st3 where "st3 = (case snd w of None \<Rightarrow> st2
        | Some c \<Rightarrow> st2\<lparr>active_channels := (active_channels st2)(pk \<mapsto> c)\<rparr>)"
    have inv3: "sounding (calls st3) k = (if active_channels st3 k = None then 0 else 1)" for k
      using fr [of k] Cons.prems [of k] True
      by (cases "snd w") (auto simp: st3_def st2_def)
    have run3: "running st3 = running st"
      using fr [of 0] by (cases "snd w") (auto simp: st3_def st2_def)
    have step: "press_keys w key (entry # km) st = press_keys w key km st3"
      unfolding st3_def st2_def using True g by (simp add: entry Let_def)
    show ?thesis
      using Cons.IH [of st3] inv3 run3 unfolding step by auto
  qed
qed

lemma press_keys_active_noop:
  "active_channels st key \<noteq> None \<Longrightarrow> press_keys w key km st = Inr st"
  by (induction km) auto

lemma control_frame [simp]:
  "active_channels (octave_down st) = active_channels st"
  "active_channels (octave_up st) = active_channels st"
  "active_channels (volume_down st) = active_channels st"
  "active_channels (volume_up st) = active_channels st"
  "calls (octave_down st) = calls st"
  "calls (octave_up st) = calls st"
  "calls (volume_down st) = calls st"
  "calls (volume_up st) = calls st"
  by (simp_all add: octave_down_def octave_up_def volume_down_def volume_up_def)

lemma click_buttons_frame [simp]:
  "active_channels (click_buttons p bs st) = active_channels st"
  "calls (click_buttons p bs st) = calls st"
  by (induction bs arbitrary: st) auto

lemma on_mouse_frame [simp]:
  "active_channels (on_mouse st p) = active_channels st"
  "calls (on_mouse st p) = calls st"
  by (simp_all add: on_mouse_def Let_def)

lemma on_keyup_invariant:
  assumes "\<And>k. sounding (calls st) k = (if active_channels st k = None then 0 else 1)"
  shows "sounding (calls (on_keyup st key)) k
     = (if active_channels (on_keyup st key) k = None then 0 else 1)"
  using assms [of k] assms [of key]
  by (auto simp: on_keyup_def split: option.splits)

lemma on_keydown_invariant:
  assumes "\<And>k. sounding (calls st) k = (if active_channels st k = None then 0 else 1)"
  shows "\<exists>st'. on_keydown w st key = Inr st'
     \<and> (\<forall>k. sounding (calls st') k = (if active_channels st' k = None then 0 else 1))"
proof -
  define st5 where "st5 =
     (let st1 = (if key = K_ESCAPE then st\<lparr>running := False\<rparr> else st);
          st2 = (if key = K_LEFTBRACKET then octave_down st1 else st1);
          st3 = (if key = K_RIGHTBRACKET then octave_up st2 else st2);
          st4 = (if key = K_MINUS then volume_down st3 else st3)
      in (if key = K_EQUALS then volume_up st4 else st4))"
  have "active_channels st5 = active_channels st" and "calls st5 = calls st"
    by (simp_all add: st5_def Let_def)
  then have "sounding (calls st5) k = (if active_channels st5 k = None then 0 else 1)" for k
    using assms [of k] by simp
  from press_keys_invariant [of st5 w key KEYBOARD_MAP, OF this]
  show ?thesis by (auto simp: on_keydown_def st5_def Let_def)
qed

lemma handle_event_invariant:
  assumes "\<And>k. sounding (calls st) k = (if active_channels st k = None then 0 else 1)"
  shows "\<exists>st'. handle_event w st ev = Inr st'
     \<and> (\<forall>k. sounding (calls st') k = (if active_channels st' k = None then 0 else 1))"
proof (cases ev)
  case (KEYDOWN key)
  then show ?thesis using on_keydown_invariant [OF assms] by (simp add: handle_event_def)
next
  case (KEYUP key)
  then show ?thesis using on_keyup_invariant [OF assms] by (simp add: handle_event_def)
qed (use assms in \<open>auto simp: handle_event_def\<close>)

lemma handle_events_invariant:
  assumes "\<And>k. sounding (calls st) k = (if active_channels st k = None then 0 else 1)"
  shows "\<exists>st'. handle_events st evs = Inr st'
     \<and> (\<forall>k. sounding (calls st') k = (if active_channels st' k = None then 0 else 1))"
  using assms
proof (induction evs arbitrary: st)
  case Nil
  then show ?case by simp
next
  case (Cons wev evs)
  obtain w ev where wev: "wev = (w, ev)" by (cases wev)
  from handle_event_invariant [of st w ev] Cons.prems obtain st1 where
    h: "handle_event w st ev = Inr st1"
    and i: "\<And>k. sounding (calls st1) k = (if active_channels st1 k = None then 0 else 1)"
    by blast
  from Cons.IH [of st1] i show ?case by (simp add: wev h)
qed

lemma main_loop_invariant:
  assumes "\<And>k. sounding (calls st) k = (if active_channels st k = None then 0 else 1)"
  shows "\<exists>st'. main_loop st frames = Inr st'
     \<and> (\<forall>k. sounding (calls st') k = (if active_channels st' k = None then 0 else 1))"
  using assms
proof (induction frames arbitrary: st)
  case Nil
  then show ?case by simp
next
  case (Cons frame frames)
  show ?case
  proof (cases "running st")
    case False
    then show ?thesis using Cons.prems by simp
  next
    case True
    from handle_events_invariant [of st frame] Cons.prems obtain st1 where
      h: "handle_events st frame = Inr st1"
      and i: "\<And>k. sounding (calls st1) k = (if active_channels st1 k = None then 0 else 1)"
      by blast
    from Cons.IH [of st1] i show ?thesis by (simp add: True h)
  qed
qed


lemma press_keys_dom:
  "press_keys w key km st = Inr st' \<Longrightarrow>
   dom (active_channels st') \<subseteq> dom (active_channels st) \<union> fst ` set km"
proof (induction km arbitrary: st)
  case Nil
  then show ?case by simp
next
  case (Cons entry km)
  obtain pk semi is_black label where entry: "entry = (pk, semi, is_black, label)"
    by (cases entry)
  show ?case
  proof (cases "key = pk \<and> active_channels st pk = None")
    case False
    then have "press_keys w key km st = Inr st'"
      using Cons.prems by (auto simp: entry)
    from Cons.IH [OF this] show ?thesis by auto
  next
    case True
    obtain sd st1 where g: "get_sound (fst w) st (instrument st) (octave_shift st) semi = Inr (sd, st1)"
      using get_sound_returns by blast
    have a1: "active_channels st1 = active_channels st"
      using get_sound_frame [OF g] by simp
    define st2 where "st2 = st1\<lparr>calls := calls st1 @ [Play pk (snd w)]\<rparr>"
    define st3 where "st3 = (case snd w of None \<Rightarrow> st2
        | Some c \<Rightarrow> st2\<lparr>active_channels := (active_channels st2)(pk \<mapsto> c)\<rparr>)"
    have d3: "dom (active_channels st3) \<subseteq> dom (active_channels st) \<union> {pk}"
      using a1 by (cases "snd w") (auto simp: st3_def st2_def)
    have "press_keys w key km st3 = Inr st'"
      unfolding st3_def st2_def using Cons.prems True g by (simp add: entry Let_def)
    from Cons.IH [OF this] d3 show ?thesis by (auto simp: entry)
  qed
qed

lemma handle_event_dom:
  assumes "handle_event w st ev = Inr st'"
  shows "dom (active_channels st') \<subseteq> dom (active_channels st) \<union> fst ` set KEYBOARD_MAP"
proof (cases ev)
  case (KEYDOWN key)
  define st5 where "st5 =
     (let st1 = (if key = K_ESCAPE then st\<lparr>running := False\<rparr> else st);
          st2 = (if key = K_LEFTBRACKET then octave_down st1 else st1);
          st3 = (if key = K_RIGHTBRACKET then octave_up st2 else st2);
          st4 = (if key = K_MINUS then volume_down st3 else st3)
      in (if key = K_EQUALS then volume_up st4 else st4))"
  have a: "active_channels st5 = active_channels st"
    by (simp add: st5_def Let_def)
  have "press_keys w key KEYBOARD_MAP st5 = Inr st'"
    using assms KEYDOWN by (simp add: handle_event_def on_keydown_def st5_def Let_def)
  from press_keys_dom [OF this] a show ?thesis by simp
next
  case (KEYUP key)
  then show ?thesis
    using assms by (auto simp: handle_event_def on_keyup_def split: option.splits if_splits)
qed (use assms in \<open>auto simp: handle_event_def split: if_splits\<close>)

lemma handle_events_dom:
  "handle_events st evs = Inr st' \<Longrightarrow>
   dom (active_channels st') \<subseteq> dom (active_channels st) \<union> fst ` set KEYBOARD_MAP"
proof (induction evs arbitrary: st)
  case Nil
  then show ?case by auto
next
  case (Cons wev evs)
  obtain w ev where wev: "wev = (w, ev)" by (cases wev)
  from Cons.prems obtain st1 where h: "handle_event w st ev = Inr st1"
    and r: "handle_events st1 evs = Inr st'"
    by (auto simp: wev split: sum.splits)
  from handle_event_dom [OF h] Cons.IH [OF r] show ?case by blast
qed

lemma main_loop_dom:
  "main_loop st frames = Inr st' \<Longrightarrow>
   dom (active_channels st') \<subseteq> dom (active_channels st) \<union> fst ` set KEYBOARD_MAP"
proof (induction frames arbitrary: st)
  case Nil
  then show ?case by auto
next
  case (Cons frame frames)
  show ?case
  proof (cases "running st")
    case False
    then show ?thesis using Cons.prems by auto
  next
    case True
    from Cons.prems True obtain st1 where h: "handle_events st frame = Inr st1"
      and r: "main_loop st1 frames = Inr st'"
      by (auto split: sum.splits)
    from handle_events_dom [OF h] Cons.IH [OF r] show ?thesis by blast
  qed
qed

text \<open>
  Claim C9. In every state reached by the event loop from the initial state, each key has
  at most one handle: the number of handles started for a key and not yet faded out is 1
  when the key is in \<open>active_channels\<close> and 0 otherwise, and only keys of
  \<open>KEYBOARD_MAP\<close> have a handle. A key-down event for such a key that has a handle
  changes nothing (no call of \<open>synth_note\<close>, no \<open>play\<close>), and a key-up event removes the
  handle of its key and of no other key.
\<close>

theorem one_handle_per_key:
  "(\<exists>st'. main_loop init_state frames = Inr st'
       \<and> (\<forall>k. sounding (calls st') k = (if active_channels st' k = None then 0 else 1))
       \<and> dom (active_channels st') \<subseteq> fst ` set KEYBOARD_MAP)
   \<and> (active_channels st pk \<noteq> None \<and> pk \<in> fst ` set KEYBOARD_MAP \<longrightarrow>
        handle_event w st (KEYDOWN pk) = Inr st)
   \<and> (\<exists>st'. handle_event w st (KEYUP key) = Inr st'
        \<and> active_channels st' key = None
        \<and> (\<forall>k. k \<noteq> key \<longrightarrow> active_channels st' k = active_channels st k))"
proof (intro conjI impI)
  have "sounding (calls init_state) k = (if active_channels init_state k = None then 0 else 1)"
    for k
    by (simp add: init_state_def sounding_def)
  from main_loop_invariant [of init_state frames, OF this] obtain st' where
    m: "main_loop init_state frames = Inr st'"
    and i: "\<forall>k. sounding (calls st') k = (if active_channels st' k = None then 0 else 1)"
    by blast
  have "dom (active_channels st') \<subseteq> fst ` set KEYBOARD_MAP"
    using main_loop_dom [OF m] by (simp add: init_state_def)
  with m i show "\<exists>st'. main_loop init_state frames = Inr st'
       \<and> (\<forall>k. sounding (calls st') k = (if active_channels st' k = None then 0 else 1))
       \<and> dom (active_channels st') \<subseteq> fst ` set KEYBOARD_MAP"
    by blast
next
  assume a: "active_channels st pk \<noteq> None \<and> pk \<in> fst ` set KEYBOARD_MAP"
  then have "pk \<noteq> K_ESCAPE" "pk \<noteq> K_LEFTBRACKET" "pk \<noteq> K_RIGHTBRACKET" "pk \<noteq> K_MINUS"
    "pk \<noteq> K_EQUALS"
    by (auto simp: KEYBOARD_MAP_def K_ESCAPE_def K_LEFTBRACKET_def K_RIGHTBRACKET_def
        K_MINUS_def K_EQUALS_def K_a_def K_w_def K_s_def K_e_def K_d_def K_f_def K_t_def
        K_g_def K_y_def K_h_def K_u_def K_j_def K_k_def)
  then show "handle_event w st (KEYDOWN pk) = Inr st"
    using a by (simp add: handle_event_def on_keydown_def press_keys_active_noop)
next
  show "\<exists>st'. handle_event w st (KEYUP key) = Inr st'
        \<and> active_channels st' key = None
        \<and> (\<forall>k. k \<noteq> key \<longrightarrow> active_channels st' k = active_channels st k)"
    by (auto simp: handle_event_def on_keyup_def split: option.splits)
qed

theorem one_handle_per_key_witness:
  "(\<exists>st'. main_loop init_state
        [[((no_noise, Some 0), KEYDOWN K_a), ((no_noise, Some 1), KEYDOWN K_a)],
         [((no_noise, None), KEYUP K_a)]] = Inr st'
       \<and> (\<forall>k. sounding (calls st') k = (if active_channels st' k = None then 0 else 1))
       \<and> dom (active_channels st') \<subseteq> fst ` set KEYBOARD_MAP)
   \<and> handle_event (no_noise, Some 1) (init_state\<lparr>active_channels := [K_a \<mapsto> 0]\<rparr>) (KEYDOWN K_a)
       = Inr (init_state\<lparr>active_channels := [K_a \<mapsto> 0]\<rparr>)
   \<and> (\<exists>st'. handle_event (no_noise, Some 1) (init_state\<lparr>active_channels := [K_a \<mapsto> 0]\<rparr>)
          (KEYUP K_a) = Inr st'
        \<and> active_channels st' K_a = None)"
proof -
  have h: "active_channels (init_state\<lparr>active_channels := [K_a \<mapsto> 0]\<rparr>) K_a \<noteq> None
      \<and> K_a \<in> fst ` set KEYBOARD_MAP"
    by (simp add: KEYBOARD_MAP_def)
  show ?thesis
    using one_handle_per_key [of
        "[[((no_noise, Some 0), KEYDOWN K_a), ((no_noise, Some 1), KEYDOWN K_a)],
         [((no_noise, None), KEYUP K_a)]]"
        "init_state\<lparr>active_channels := [K_a \<mapsto> 0]\<rparr>" K_a "(no_noise, Some 1)" K_a] h
    by blast
qed

end
